theory Spec2Isabelle
  imports Complex_Main
begin

section \<open>Numbers\<close>

text \<open>
  A JavaScript number is a finite value, one of the two infinities, or NaN. Arithmetic on
  finite values is exact here: the rounding of a result to the nearest double is not
  modelled, and zero stands for positive zero. What is modelled is where a number stops
  being a number: \<open>0 / 0\<close>, \<open>Infinity - Infinity\<close> and \<open>0 * Infinity\<close> are NaN, and NaN
  goes through every operation, \<^verbatim>\<open>Math.min\<close>, \<^verbatim>\<open>Math.max\<close> and \<^verbatim>\<open>Math.round\<close>
  included; a comparison with NaN is false.
\<close>

datatype jsnum = Num real | PosInf | NegInf | NaN

fun jneg :: "jsnum \<Rightarrow> jsnum" where
  "jneg (Num a) = Num (- a)"
| "jneg PosInf = NegInf"
| "jneg NegInf = PosInf"
| "jneg NaN = NaN"

fun jadd :: "jsnum \<Rightarrow> jsnum \<Rightarrow> jsnum" where
  "jadd (Num a) (Num b) = Num (a + b)"
| "jadd NaN _ = NaN"
| "jadd _ NaN = NaN"
| "jadd PosInf NegInf = NaN"
| "jadd NegInf PosInf = NaN"
| "jadd PosInf _ = PosInf"
| "jadd _ PosInf = PosInf"
| "jadd NegInf _ = NegInf"
| "jadd _ NegInf = NegInf"

definition jsub :: "jsnum \<Rightarrow> jsnum \<Rightarrow> jsnum" where
  "jsub a b = jadd a (jneg b)"

fun jmul :: "jsnum \<Rightarrow> jsnum \<Rightarrow> jsnum" where
  "jmul (Num a) (Num b) = Num (a * b)"
| "jmul NaN _ = NaN"
| "jmul _ NaN = NaN"
| "jmul PosInf (Num b) = (if b = 0 then NaN else if 0 < b then PosInf else NegInf)"
| "jmul NegInf (Num b) = (if b = 0 then NaN else if 0 < b then NegInf else PosInf)"
| "jmul (Num a) PosInf = (if a = 0 then NaN else if 0 < a then PosInf else NegInf)"
| "jmul (Num a) NegInf = (if a = 0 then NaN else if 0 < a then NegInf else PosInf)"
| "jmul PosInf PosInf = PosInf"
| "jmul NegInf NegInf = PosInf"
| "jmul PosInf NegInf = NegInf"
| "jmul NegInf PosInf = NegInf"

fun jdiv :: "jsnum \<Rightarrow> jsnum \<Rightarrow> jsnum" where
  "jdiv (Num a) (Num b) =
     (if b \<noteq> 0 then Num (a / b) else if a = 0 then NaN else if 0 < a then PosInf else NegInf)"
| "jdiv NaN _ = NaN"
| "jdiv _ NaN = NaN"
| "jdiv (Num a) PosInf = Num 0"
| "jdiv (Num a) NegInf = Num 0"
| "jdiv PosInf (Num b) = (if 0 \<le> b then PosInf else NegInf)"
| "jdiv NegInf (Num b) = (if 0 \<le> b then NegInf else PosInf)"
| "jdiv PosInf PosInf = NaN"
| "jdiv PosInf NegInf = NaN"
| "jdiv NegInf PosInf = NaN"
| "jdiv NegInf NegInf = NaN"

text \<open>The comparisons \<^verbatim>\<open><\<close> and \<^verbatim>\<open><=\<close>, written the other way round for \<^verbatim>\<open>>\<close> and \<^verbatim>\<open>>=\<close>.\<close>

fun jless :: "jsnum \<Rightarrow> jsnum \<Rightarrow> bool" where
  "jless (Num a) (Num b) = (a < b)"
| "jless NaN _ = False"
| "jless _ NaN = False"
| "jless _ NegInf = False"
| "jless PosInf _ = False"
| "jless NegInf _ = True"
| "jless _ PosInf = True"

definition jle :: "jsnum \<Rightarrow> jsnum \<Rightarrow> bool" where
  "jle a b = (a \<noteq> NaN \<and> (jless a b \<or> a = b))"

text \<open>\<^verbatim>\<open>Math.min(a, b)\<close> and \<^verbatim>\<open>Math.max(a, b)\<close>: NaN when an argument is NaN.\<close>

definition jmin :: "jsnum \<Rightarrow> jsnum \<Rightarrow> jsnum" where
  "jmin a b = (if a = NaN \<or> b = NaN then NaN else if jless a b then a else b)"

definition jmax :: "jsnum \<Rightarrow> jsnum \<Rightarrow> jsnum" where
  "jmax a b = (if a = NaN \<or> b = NaN then NaN else if jless a b then b else a)"

text \<open>
  \<^verbatim>\<open>Math.round\<close> rounds a finite value to the nearest integer, a tie going towards plus
  infinity; the infinities and NaN are returned as they are.
\<close>

definition js_round :: "real \<Rightarrow> real" where
  "js_round x = of_int \<lfloor>x + 1 / 2\<rfloor>"

fun jround :: "jsnum \<Rightarrow> jsnum" where
  "jround (Num a) = Num (js_round a)"
| "jround PosInf = PosInf"
| "jround NegInf = NegInf"
| "jround NaN = NaN"

text \<open>
  A value stored as a 32-bit float, as the library's tensors are: beyond the largest
  finite binary32 value it is an infinity. (The rounding of the values within the range
  is not modelled.)
\<close>

definition float32 :: "jsnum \<Rightarrow> jsnum" where
  "float32 v =
     (case v of
        Num a \<Rightarrow>
          if 2 ^ 128 - 2 ^ 103 \<le> a then PosInf
          else if a \<le> - (2 ^ 128 - 2 ^ 103) then NegInf
          else Num a
      | _ \<Rightarrow> v)"

section \<open>Audio features (utils/audioFeatures.js)\<close>

text \<open>
  \<^verbatim>\<open>calculateSpectralFlux\<close> on the samples of the first channel: the loop visits the
  indices 1024, 2048, ... below the length, and the sum is divided by the number of whole
  windows, which is 0 for a clip of fewer than 1024 samples.
\<close>

definition calculateSpectralFlux :: "real list \<Rightarrow> jsnum" where
  "calculateSpectralFlux channelData =
     (let windowSize = 1024;
          flux = (\<Sum>k \<leftarrow> [1 ..< (length channelData + windowSize - 1) div windowSize].
                    max 0 (\<bar>channelData ! (k * windowSize)\<bar>
                           - \<bar>channelData ! (k * windowSize - windowSize)\<bar>))
      in jdiv (Num flux) (Num (real (length channelData div windowSize))))"

text \<open>
  The object built in \<^verbatim>\<open>extractAudioFeatures\<close> before normalisation; \<^verbatim>\<open>duration\<close>
  and \<^verbatim>\<open>sampleRate\<close> are those of the decoded \<^verbatim>\<open>audioBuffer\<close>.
\<close>

record rawFeatures =
  duration :: jsnum
  sampleRate :: jsnum
  rms :: jsnum
  zeroCrossingRate :: jsnum
  spectralCentroid :: jsnum
  spectralRolloff :: jsnum
  spectralFlux :: jsnum
  tempo :: jsnum
  mfcc :: "jsnum list"

text \<open>The object returned by \<^verbatim>\<open>normalizeFeatures\<close>: the same keys, \<^verbatim>\<open>mfcc\<close> flattened.\<close>

record features =
  duration :: jsnum
  sampleRate :: jsnum
  rms :: jsnum
  zeroCrossingRate :: jsnum
  spectralCentroid :: jsnum
  spectralRolloff :: jsnum
  spectralFlux :: jsnum
  tempo :: jsnum
  mfcc0 :: jsnum
  mfcc1 :: jsnum
  mfcc2 :: jsnum
  mfcc3 :: jsnum
  mfcc4 :: jsnum

text \<open>
  \<^verbatim>\<open>xs[k]\<close> used as a number: beyond the end of the array it is \<^verbatim>\<open>undefined\<close>, which
  arithmetic turns into NaN.
\<close>

definition numberAt :: "jsnum list \<Rightarrow> nat \<Rightarrow> jsnum" where
  "numberAt xs k = (if k < length xs then xs ! k else NaN)"

definition normalizeFeatures :: "rawFeatures \<Rightarrow> features" where
  "normalizeFeatures f =
     \<lparr> features.duration = jmin (jdiv (rawFeatures.duration f) (Num 300)) (Num 1),
       features.sampleRate = jdiv (rawFeatures.sampleRate f) (Num 48000),
       features.rms = jmin (jmul (rawFeatures.rms f) (Num 10)) (Num 1),
       features.zeroCrossingRate = jmin (jmul (rawFeatures.zeroCrossingRate f) (Num 100)) (Num 1),
       features.spectralCentroid = jmin (jdiv (rawFeatures.spectralCentroid f) (Num 10000)) (Num 1),
       features.spectralRolloff = jmin (jdiv (rawFeatures.spectralRolloff f) (Num 10000)) (Num 1),
       features.spectralFlux = jmin (jmul (rawFeatures.spectralFlux f) (Num 100)) (Num 1),
       features.tempo = jdiv (jsub (rawFeatures.tempo f) (Num 60)) (Num 120),
       mfcc0 = jdiv (numberAt (mfcc f) 0) (Num 10),
       mfcc1 = jdiv (numberAt (mfcc f) 1) (Num 10),
       mfcc2 = jdiv (numberAt (mfcc f) 2) (Num 10),
       mfcc3 = jdiv (numberAt (mfcc f) 3) (Num 10),
       mfcc4 = jdiv (numberAt (mfcc f) 4) (Num 10) \<rparr>"

definition classifyGenre :: "features \<Rightarrow> jsnum list" where
  "classifyGenre f =
     (let genreVector = replicate 10 (Num 0) in
      if jless (Num 0.6) (features.tempo f) \<and> jless (Num 0.5) (features.spectralCentroid f)
        then genreVector[0 := Num 0.8]
      else if jless (Num 0.5) (features.tempo f) \<and> jless (Num 0.7) (features.rms f)
        then genreVector[1 := Num 0.8]
      else if jless (Num 0.6) (features.spectralCentroid f)
              \<and> jless (Num 0.5) (features.spectralFlux f)
        then genreVector[2 := Num 0.8]
      else if jless (Num 0.55) (features.tempo f) \<and> jless (Num 0.4) (features.zeroCrossingRate f)
        then genreVector[3 := Num 0.8]
      else genreVector[0 := Num 0.3])"

definition featuresToVector :: "features \<Rightarrow> jsnum list \<Rightarrow> jsnum list" where
  "featuresToVector f genreVector =
     [features.duration f, features.sampleRate f, features.rms f,
      features.zeroCrossingRate f, features.spectralCentroid f,
      features.spectralRolloff f, features.spectralFlux f, features.tempo f,
      mfcc0 f, mfcc1 f, mfcc2 f, mfcc3 f, mfcc4 f] @ genreVector"

section \<open>The preference model (utils/userPreferenceModel.js)\<close>

text \<open>Gain objects \<^verbatim>\<open>{vocals, drums, bass, other}\<close>, in decibels.\<close>

record gainSettings =
  vocals :: jsnum
  drums :: jsnum
  bass :: jsnum
  other :: jsnum

text \<open>
  A dense layer is the list of its units, each with its kernel column and its bias; the
  weights of the sequential model are the list of its layers, and they are finite. The
  layer computes \<open>activation (input \<cdot> kernel + bias)\<close> in 32-bit floats: every product
  and every partial sum is stored as one, so that it may overflow to an infinity, and an
  infinity or a NaN goes on through the sums. The sum is taken from left to right.
\<close>

type_synonym dense = "(real list \<times> real) list"
type_synonym weights = "dense list"

text \<open>The activations on numbers: \<open>relu\<close> is \<open>max(0, x)\<close>; both return NaN on NaN.\<close>

fun relu :: "jsnum \<Rightarrow> jsnum" where
  "relu (Num a) = Num (max 0 a)"
| "relu PosInf = PosInf"
| "relu NegInf = Num 0"
| "relu NaN = NaN"

fun jtanh :: "jsnum \<Rightarrow> jsnum" where
  "jtanh (Num a) = Num (tanh a)"
| "jtanh PosInf = Num 1"
| "jtanh NegInf = Num (- 1)"
| "jtanh NaN = NaN"

definition dotStep :: "jsnum \<Rightarrow> jsnum \<times> real \<Rightarrow> jsnum" where
  "dotStep acc xw = float32 (jadd acc (float32 (jmul (fst xw) (Num (snd xw)))))"

definition dot :: "jsnum list \<Rightarrow> real list \<Rightarrow> jsnum" where
  "dot x w = foldl dotStep (Num 0) (zip x w)"

definition dense_apply :: "(jsnum \<Rightarrow> jsnum) \<Rightarrow> dense \<Rightarrow> jsnum list \<Rightarrow> jsnum list" where
  "dense_apply act l x = map (\<lambda>(w, b). act (float32 (jadd (dot x w) (Num b)))) l"

text \<open>
  The forward pass of the four layers of \<^verbatim>\<open>createModel\<close>, relu, relu, relu and tanh, on
  the input stored as a tensor of 32-bit floats.
\<close>

definition forward :: "weights \<Rightarrow> jsnum list \<Rightarrow> jsnum list" where
  "forward ws x =
     (case ws of
        [l1, l2, l3, l4] \<Rightarrow>
          dense_apply jtanh l4
            (dense_apply relu l3 (dense_apply relu l2 (dense_apply relu l1 (map float32 x))))
      | _ \<Rightarrow> [])"

definition inputSize :: nat where
  "inputSize = 23"

definition outputSize :: nat where
  "outputSize = 4"

text \<open>
  A freshly built dense layer: the kernel entries are the draws of the
  \<^verbatim>\<open>glorotUniform\<close> initialiser, taken as a parameter, and the biases are zero (the
  library's default bias initialiser, which \<^verbatim>\<open>createModel\<close> does not override).
\<close>

definition denseLayer :: "(nat \<Rightarrow> nat \<Rightarrow> real) \<Rightarrow> nat \<Rightarrow> nat \<Rightarrow> dense" where
  "denseLayer draw inputs units = map (\<lambda>j. (map (draw j) [0..<inputs], 0)) [0..<units]"

definition createModel :: "(nat \<Rightarrow> nat \<Rightarrow> nat \<Rightarrow> real) \<Rightarrow> weights" where
  "createModel init =
     [denseLayer (init 0) inputSize 64, denseLayer (init 1) 64 32,
      denseLayer (init 2) 32 16, denseLayer (init 3) 16 outputSize]"

text \<open>The shapes \<^verbatim>\<open>setWeights\<close> accepts: those of the architecture.\<close>

definition shapes_ok :: "weights \<Rightarrow> bool" where
  "shapes_ok ws =
     (map (map (length \<circ> fst)) ws =
        [replicate 64 inputSize, replicate 32 64, replicate 16 32, replicate outputSize 16])"

datatype error = ShapeError | NullModel | FitError

record userPreferenceModel =
  userId :: string
  model :: "weights option"
  isInitialized :: bool

definition newUserPreferenceModel :: "string \<Rightarrow> userPreferenceModel" where
  "newUserPreferenceModel uid = \<lparr> userId = uid, model = None, isInitialized = False \<rparr>"

text \<open>
  The entries \<^verbatim>\<open>userModel_<id>\<close> of the browser's local storage, already parsed; an entry
  that does not parse is read as absent by \<^verbatim>\<open>loadWeights\<close>.
\<close>

type_synonym localStorage = "string \<rightharpoonup> weights"

definition storageKey :: "string \<Rightarrow> string" where
  "storageKey uid = ''userModel_'' @ uid"

definition loadWeights :: "localStorage \<Rightarrow> userPreferenceModel \<Rightarrow> weights option" where
  "loadWeights store m = store (storageKey (userId m))"

definition saveWeights :: "userPreferenceModel \<Rightarrow> localStorage \<Rightarrow> localStorage" where
  "saveWeights m store =
     (case model m of
        None \<Rightarrow> store
      | Some ws \<Rightarrow> store(storageKey (userId m) \<mapsto> ws))"

definition initialize ::
  "(nat \<Rightarrow> nat \<Rightarrow> nat \<Rightarrow> real) \<Rightarrow> localStorage \<Rightarrow> userPreferenceModel
     \<Rightarrow> userPreferenceModel \<times> (error + unit)" where
  "initialize init store m =
     (if isInitialized m then (m, Inr ())
      else
        (case loadWeights store m of
           Some savedWeights \<Rightarrow>
             (let m1 = m\<lparr>model := Some (createModel init)\<rparr> in
              if shapes_ok savedWeights
                then (m1\<lparr>model := Some savedWeights, isInitialized := True\<rparr>, Inr ())
                else (m1, Inl ShapeError))
         | None \<Rightarrow> (m\<lparr>model := Some (createModel init), isInitialized := True\<rparr>, Inr ())))"

text \<open>
  \<^verbatim>\<open>predict\<close>: the four network outputs are mapped by \<open>v * 18 - 6\<close>, rounded by
  \<^verbatim>\<open>Math.round\<close> and put through \<^verbatim>\<open>Math.max(-24, Math.min(12, .))\<close>. (A network output is
  a 32-bit float between \<open>-1\<close> and \<open>1\<close>, or NaN; for such a value the doubles give the
  same rounded integer as exact arithmetic.)
\<close>

definition predict ::
  "(nat \<Rightarrow> nat \<Rightarrow> nat \<Rightarrow> real) \<Rightarrow> localStorage \<Rightarrow> userPreferenceModel \<Rightarrow> jsnum list
     \<Rightarrow> userPreferenceModel \<times> (error + gainSettings)" where
  "predict init store m x =
     (case initialize init store m of
        (m1, Inl e) \<Rightarrow> (m1, Inl e)
      | (m1, Inr _) \<Rightarrow>
          (case model m1 of
             None \<Rightarrow> (m1, Inl NullModel)
           | Some ws \<Rightarrow>
               if length x \<noteq> inputSize then (m1, Inl ShapeError)
               else
                 (case forward ws x of
                    [v0, v1, v2, v3] \<Rightarrow>
                      (let gains = \<lparr> vocals = jround (jsub (jmul v0 (Num 18)) (Num 6)),
                                     drums = jround (jsub (jmul v1 (Num 18)) (Num 6)),
                                     bass = jround (jsub (jmul v2 (Num 18)) (Num 6)),
                                     other = jround (jsub (jmul v3 (Num 18)) (Num 6)) \<rparr>;
                           gains = gains\<lparr>vocals := jmax (Num (- 24)) (jmin (Num 12) (vocals gains))\<rparr>;
                           gains = gains\<lparr>drums := jmax (Num (- 24)) (jmin (Num 12) (drums gains))\<rparr>;
                           gains = gains\<lparr>bass := jmax (Num (- 24)) (jmin (Num 12) (bass gains))\<rparr>;
                           gains = gains\<lparr>other := jmax (Num (- 24)) (jmin (Num 12) (other gains))\<rparr>
                       in (m1, Inr gains))
                  | _ \<Rightarrow> (m1, Inl ShapeError))))"

text \<open>
  \<^verbatim>\<open>model.fit\<close> is the library's optimiser, taken as a parameter: from the current
  weights, the inputs, the targets, the number of epochs and the batch size it gives the
  new weights, or \<open>None\<close> when it throws.
\<close>

type_synonym fitter =
  "weights \<Rightarrow> jsnum list list \<Rightarrow> jsnum list list \<Rightarrow> nat \<Rightarrow> nat \<Rightarrow> weights option"

definition normalizeGains :: "gainSettings \<Rightarrow> jsnum list" where
  "normalizeGains g =
     [jdiv (jadd (vocals g) (Num 6)) (Num 18), jdiv (jadd (drums g) (Num 6)) (Num 18),
      jdiv (jadd (bass g) (Num 6)) (Num 18), jdiv (jadd (other g) (Num 6)) (Num 18)]"

definition train ::
  "fitter \<Rightarrow> (nat \<Rightarrow> nat \<Rightarrow> nat \<Rightarrow> real) \<Rightarrow> jsnum list \<Rightarrow> gainSettings
     \<Rightarrow> userPreferenceModel \<times> localStorage
     \<Rightarrow> (userPreferenceModel \<times> localStorage) \<times> (error + unit)" where
  "train fit init x actualGains ms =
     (case ms of (m, store) \<Rightarrow>
        (case initialize init store m of
           (m1, Inl e) \<Rightarrow> ((m1, store), Inl e)
         | (m1, Inr _) \<Rightarrow>
             (case model m1 of
                None \<Rightarrow> ((m1, store), Inl NullModel)
              | Some ws \<Rightarrow>
                  (case fit ws [x] [normalizeGains actualGains] 5 1 of
                     None \<Rightarrow> ((m1, store), Inl FitError)
                   | Some ws' \<Rightarrow>
                       (let m2 = m1\<lparr>model := Some ws'\<rparr>
                        in ((m2, saveWeights m2 store), Inr ()))))))"

section \<open>The mixer (components/Mixer.js)\<close>

subsection \<open>State\<close>

text \<open>The channel keys of \<^verbatim>\<open>channels\<close>, and \<^verbatim>\<open>{ ...gains, [key]: v }\<close>.\<close>

datatype stem = Vocals | Drums | Bass | Other

fun setGain :: "stem \<Rightarrow> jsnum \<Rightarrow> gainSettings \<Rightarrow> gainSettings" where
  "setGain Vocals v g = g\<lparr>vocals := v\<rparr>"
| "setGain Drums v g = g\<lparr>drums := v\<rparr>"
| "setGain Bass v g = g\<lparr>bass := v\<rparr>"
| "setGain Other v g = g\<lparr>other := v\<rparr>"

text \<open>
  An \<^verbatim>\<open>Audio\<close> element: position in seconds, duration (\<open>None\<close> while it is NaN, before
  the metadata is known), volume, the paused flag and the ready state.
\<close>

record audio =
  src :: string
  currentTime :: real
  duration :: "real option"
  volume :: real
  paused :: bool
  readyState :: nat

text \<open>\<^verbatim>\<open>new Audio(url)\<close>: at position 0, full volume, paused, nothing loaded.\<close>

definition newAudioElement :: "string \<Rightarrow> audio" where
  "newAudioElement url =
     \<lparr> src = url, currentTime = 0, duration = None, volume = 1, paused = True, readyState = 0 \<rparr>"

text \<open>
  The component: its React state, its three refs, the audio elements it has created (a
  store from addresses to elements, \<^verbatim>\<open>audioRef\<close> holding an address), the browser's
  pending debounce timeouts (identifier, due time in milliseconds, captured gains) and
  active polling intervals, the progress requests awaiting their response, and what the
  component has sent and shown: the bodies posted to \<^verbatim>\<open>/mix\<close>, the alerts scheduled and
  the console errors.
\<close>

record mixer =
  gains :: gainSettings
  separating :: bool
  progress :: jsnum
  playing :: bool
  paused :: bool
  audioRef :: "nat option"
  progressIntervalRef :: "nat option"
  updateTimeoutRef :: "nat option"
  audios :: "nat \<Rightarrow> audio"
  nextAudio :: nat
  clock :: nat
  timeouts :: "(nat \<times> nat \<times> gainSettings) list"
  intervals :: "nat list"
  nextTimer :: nat
  pollsInFlight :: nat
  mixRequests :: "gainSettings list"
  alerts :: "string list"
  console :: "string list"

definition updateAudio :: "nat \<Rightarrow> (audio \<Rightarrow> audio) \<Rightarrow> mixer \<Rightarrow> mixer" where
  "updateAudio a f st = st\<lparr>audios := (audios st)(a := f (audios st a))\<rparr>"

definition clearTimeout :: "nat \<Rightarrow> mixer \<Rightarrow> mixer" where
  "clearTimeout i st = st\<lparr>timeouts := filter (\<lambda>t. fst t \<noteq> i) (timeouts st)\<rparr>"

definition clearInterval :: "nat \<Rightarrow> mixer \<Rightarrow> mixer" where
  "clearInterval i st = st\<lparr>intervals := removeAll i (intervals st)\<rparr>"

subsection \<open>Slider edits and the debounced live update\<close>

text \<open>
  \<^verbatim>\<open>handleChange(key, val)\<close>; \<open>val\<close> is the integer \<^verbatim>\<open>parseInt\<close> reads from the slider's
  value.
\<close>

definition handleChange :: "stem \<Rightarrow> int \<Rightarrow> mixer \<Rightarrow> mixer" where
  "handleChange key val st =
     (let newGains = setGain key (Num (of_int val)) (mixer.gains st);
          st1 = st\<lparr>mixer.gains := newGains\<rparr>
      in
        if playing st \<and> \<not> mixer.paused st \<and> audioRef st \<noteq> None then
          (let st2 = (case updateTimeoutRef st1 of
                        Some i \<Rightarrow> clearTimeout i st1
                      | None \<Rightarrow> st1);
               i = nextTimer st2
           in st2\<lparr>timeouts := timeouts st2 @ [(i, clock st2 + 200, newGains)],
                  updateTimeoutRef := Some i, nextTimer := Suc i\<rparr>)
        else st1)"

text \<open>
  What \<^verbatim>\<open>updatePlayingAudio\<close> saves before it awaits the render: the position of the
  playing element, whether it was playing, the element and its volume.
\<close>

record capture =
  currentTime :: real
  wasPlaying :: bool
  oldAudio :: nat
  oldVolume :: real

text \<open>
  \<^verbatim>\<open>updatePlayingAudio\<close> up to its \<^verbatim>\<open>fetch\<close>: nothing without a current element;
  otherwise the state is saved and the gains are posted to \<^verbatim>\<open>/mix\<close>.
\<close>

definition updatePlayingAudio_request :: "gainSettings \<Rightarrow> mixer \<Rightarrow> mixer \<times> capture option" where
  "updatePlayingAudio_request newGains st =
     (case audioRef st of
        None \<Rightarrow> (st, None)
      | Some a \<Rightarrow>
          (st\<lparr>mixRequests := mixRequests st @ [newGains]\<rparr>,
           Some \<lparr> capture.currentTime = audio.currentTime (audios st a),
                  wasPlaying = (\<not> audio.paused (audios st a)),
                  oldAudio = a,
                  oldVolume = volume (audios st a) \<rparr>))"

text \<open>
  Time passes by \<open>d\<close> milliseconds: the debounce timeouts that are due run their
  callback, \<^verbatim>\<open>updatePlayingAudio(newGains)\<close>, in the order they were set.
\<close>

definition elapse :: "nat \<Rightarrow> mixer \<Rightarrow> mixer" where
  "elapse d st =
     (let t = clock st + d;
          due = filter (\<lambda>(i, time, g). time \<le> t) (timeouts st);
          rest = filter (\<lambda>(i, time, g). \<not> time \<le> t) (timeouts st)
      in foldl (\<lambda>s (i, time, g). fst (updatePlayingAudio_request g s))
           (st\<lparr>clock := t, timeouts := rest\<rparr>) due)"

text \<open>A burst of slider edits, each after a gap in milliseconds since the previous one.\<close>

fun sliderEdits :: "(nat \<times> stem \<times> int) list \<Rightarrow> mixer \<Rightarrow> mixer" where
  "sliderEdits [] st = st"
| "sliderEdits ((gap, key, val) # es) st = sliderEdits es (handleChange key val (elapse gap st))"

text \<open>
  The state right after a slider edit made while a mix plays: exactly one debounce
  timeout is pending, it is the one \<^verbatim>\<open>updateTimeoutRef\<close> holds, it is due 200 ms from
  now and it carries the current gains.
\<close>

definition armed :: "mixer \<Rightarrow> bool" where
  "armed st =
     (playing st \<and> \<not> mixer.paused st \<and> audioRef st \<noteq> None
      \<and> (\<exists>i. timeouts st = [(i, clock st + 200, mixer.gains st)] \<and> updateTimeoutRef st = Some i))"

subsection \<open>The render response and the handover\<close>

text \<open>
  The outcome of the \<^verbatim>\<open>fetch\<close> of \<^verbatim>\<open>/mix\<close>: the request fails, the server answers with
  an error status, or it answers with a JSON body and its \<^verbatim>\<open>path\<close>, if any.
\<close>

datatype fetchResult = NetworkError | HttpError nat | Body "string option"

text \<open>
  \<^verbatim>\<open>updatePlayingAudio\<close> after the \<^verbatim>\<open>fetch\<close>: every failure is caught and logged; on
  success the new element is created, muted, and its address returned.
\<close>

definition updatePlayingAudio_response :: "fetchResult \<Rightarrow> mixer \<Rightarrow> mixer \<times> nat option" where
  "updatePlayingAudio_response r st =
     (case r of
        NetworkError \<Rightarrow> (st\<lparr>console := console st @ [''Error updating audio:'']\<rparr>, None)
      | HttpError status \<Rightarrow> (st\<lparr>console := console st @ [''Error updating audio:'']\<rparr>, None)
      | Body path \<Rightarrow>
          (case path of
             None \<Rightarrow> (st\<lparr>console := console st @ [''Error updating audio:'']\<rparr>, None)
           | Some p \<Rightarrow>
               if p = [] then (st\<lparr>console := console st @ [''Error updating audio:'']\<rparr>, None)
               else
                 (let n = nextAudio st;
                      newAudio = (newAudioElement (''http://127.0.0.1:8000'' @ p))\<lparr>volume := 0\<rparr>
                  in (st\<lparr>audios := (audios st)(n := newAudio), nextAudio := Suc n\<rparr>, Some n))))"

text \<open>
  The closure of \<^verbatim>\<open>handleCanPlay\<close> and of the fade interval: the saved state, the new
  element, the \<^verbatim>\<open>crossfadeStarted\<close> flag, the step counter and whether the interval runs.
\<close>

record handover = capture +
  newAudio :: nat
  crossfadeStarted :: bool
  step :: nat
  fadeInterval :: bool

definition beginHandover :: "capture \<Rightarrow> nat \<Rightarrow> handover" where
  "beginHandover c n =
     \<lparr> capture.currentTime = capture.currentTime c, wasPlaying = wasPlaying c,
       oldAudio = oldAudio c, oldVolume = oldVolume c,
       newAudio = n, crossfadeStarted = False, step = 0, fadeInterval = False \<rparr>"

definition pause :: "nat \<Rightarrow> mixer \<Rightarrow> mixer" where
  "pause a st = updateAudio a (\<lambda>x. x\<lparr>audio.paused := True\<rparr>) st"

text \<open>\<^verbatim>\<open>play()\<close>: the promise resolves and the element plays, or it rejects.\<close>

definition play :: "bool \<Rightarrow> nat \<Rightarrow> mixer \<Rightarrow> mixer" where
  "play resolves a st = (if resolves then updateAudio a (\<lambda>x. x\<lparr>audio.paused := False\<rparr>) st else st)"

text \<open>
  \<^verbatim>\<open>handleCanPlay\<close>, given whether \<^verbatim>\<open>await newAudio.play()\<close> resolves and whether the
  \<^verbatim>\<open>play()\<close> of the fallback does. \<^verbatim>\<open>newAudio.duration || currentTime\<close> takes the saved
  position when the duration is NaN or 0.
\<close>

definition handleCanPlay :: "bool \<Rightarrow> bool \<Rightarrow> handover \<Rightarrow> mixer \<Rightarrow> handover \<times> mixer" where
  "handleCanPlay playResolves fallbackResolves h st =
     (if crossfadeStarted h then (h, st)
      else
        (let h1 = h\<lparr>crossfadeStarted := True\<rparr>;
             targetTime =
               min (capture.currentTime h)
                 (case audio.duration (audios st (newAudio h)) of
                    None \<Rightarrow> capture.currentTime h
                  | Some d \<Rightarrow> if d = 0 then capture.currentTime h else d);
             st1 = updateAudio (newAudio h) (\<lambda>x. x\<lparr>audio.currentTime := targetTime\<rparr>) st
         in
           if wasPlaying h then
             if playResolves then
               (h1\<lparr>step := 0, fadeInterval := True\<rparr>, play True (newAudio h) st1)
             else
               (let st2 = st1\<lparr>console := console st1 @ [''Error playing updated audio:'']\<rparr>;
                    st3 = pause (oldAudio h) st2;
                    st4 = st3\<lparr>audioRef := Some (newAudio h)\<rparr>;
                    st5 = updateAudio (newAudio h) (\<lambda>x. x\<lparr>volume := 1\<rparr>) st4
                in (h1, play fallbackResolves (newAudio h) st5))
           else
             (let st2 = pause (oldAudio h) st1;
                  st3 = st2\<lparr>audioRef := Some (newAudio h)\<rparr>
              in (h1, updateAudio (newAudio h) (\<lambda>x. x\<lparr>volume := 1\<rparr>) st3))))"

definition fadeDuration :: real where
  "fadeDuration = 150"

definition steps :: nat where
  "steps = 30"

definition stepTime :: real where
  "stepTime = fadeDuration / real steps"

definition volumeStep :: real where
  "volumeStep = 1 / real steps"

text \<open>One run of the callback of \<^verbatim>\<open>fadeInterval\<close>, every \<^verbatim>\<open>stepTime\<close> milliseconds.\<close>

definition fadeTick :: "handover \<Rightarrow> mixer \<Rightarrow> handover \<times> mixer" where
  "fadeTick h st =
     (if \<not> fadeInterval h then (h, st)
      else
        (let k = Suc (step h);
             newVolume = min (real k * volumeStep) 1;
             oldVolumeNew = max (1 - real k * volumeStep) 0;
             st1 = updateAudio (newAudio h) (\<lambda>x. x\<lparr>volume := newVolume\<rparr>) st;
             st2 = (if oldAudio h \<noteq> newAudio h \<and> \<not> audio.paused (audios st1 (oldAudio h))
                    then updateAudio (oldAudio h) (\<lambda>x. x\<lparr>volume := oldVolumeNew\<rparr>) st1
                    else st1)
         in
           if k \<ge> steps then
             (let st3 = (if oldAudio h \<noteq> newAudio h
                         then updateAudio (oldAudio h) (\<lambda>x. x\<lparr>volume := oldVolume h\<rparr>)
                                (pause (oldAudio h) st2)
                         else st2);
                  st4 = updateAudio (newAudio h) (\<lambda>x. x\<lparr>volume := 1\<rparr>) st3
              in (h\<lparr>step := k, fadeInterval := False\<rparr>, st4\<lparr>audioRef := Some (newAudio h)\<rparr>))
           else (h\<lparr>step := k\<rparr>, st2)))"

fun fadeTicks :: "nat \<Rightarrow> handover \<times> mixer \<Rightarrow> handover \<times> mixer" where
  "fadeTicks 0 hs = hs"
| "fadeTicks (Suc n) hs = (case fadeTicks n hs of (h, st) \<Rightarrow> fadeTick h st)"

text \<open>
  The state of a running fade after \<open>k\<close> ticks, for a handover \<open>h0\<close> that started in
  \<open>s0\<close>: only the counter and the two volumes have changed.
\<close>

definition fading :: "handover \<Rightarrow> mixer \<Rightarrow> nat \<Rightarrow> handover \<times> mixer \<Rightarrow> bool" where
  "fading h0 s0 k hs =
     (case hs of (h, st) \<Rightarrow>
        h = h0\<lparr>step := k\<rparr>
        \<and> audioRef st = audioRef s0
        \<and> \<not> audio.paused (audios st (oldAudio h0))
        \<and> audio.paused (audios st (newAudio h0)) = audio.paused (audios s0 (newAudio h0))
        \<and> audio.currentTime (audios st (newAudio h0)) = audio.currentTime (audios s0 (newAudio h0))
        \<and> audio.currentTime (audios st (oldAudio h0)) = audio.currentTime (audios s0 (oldAudio h0))
        \<and> (0 < k \<longrightarrow> volume (audios st (newAudio h0)) = real k / 30
                    \<and> volume (audios st (oldAudio h0)) = 1 - real k / 30))"

text \<open>
  The media engine: while an element is not paused its position advances with time, up
  to its duration when that is known.
\<close>

definition advance :: "real \<Rightarrow> audio \<Rightarrow> audio" where
  "advance dt x =
     (if audio.paused x then x
      else x\<lparr>audio.currentTime :=
             (case audio.duration x of
                None \<Rightarrow> audio.currentTime x + dt
              | Some d \<Rightarrow> min (audio.currentTime x + dt) d)\<rparr>)"

definition playback :: "real \<Rightarrow> mixer \<Rightarrow> mixer" where
  "playback dt st = st\<lparr>audios := (\<lambda>a. advance dt (audios st a))\<rparr>"

text \<open>The new element's metadata and data arrive.\<close>

definition loaded :: "nat \<Rightarrow> real \<Rightarrow> mixer \<Rightarrow> mixer" where
  "loaded a d st = updateAudio a (\<lambda>x. x\<lparr>audio.duration := Some d, readyState := 4\<rparr>) st"

subsection \<open>Polling the separation job\<close>

text \<open>
  The outcome of the \<^verbatim>\<open>fetch\<close> of \<^verbatim>\<open>/separation_progress\<close>: it throws, the server
  answers with an error status, or with the job's status and progress (NaN when the
  answer has no number there).
\<close>

datatype pollResult = PollFailed | PollNotOk | PollData string jsnum

text \<open>
  The block \<^verbatim>\<open>if (progressIntervalRef.current) { clearInterval(progressIntervalRef.current);
  progressIntervalRef.current = null; }\<close>.
\<close>

definition stopPolling :: "mixer \<Rightarrow> mixer" where
  "stopPolling st =
     (case progressIntervalRef st of
        Some i \<Rightarrow> (clearInterval i st)\<lparr>progressIntervalRef := None\<rparr>
      | None \<Rightarrow> st)"

text \<open>
  \<^verbatim>\<open>pollProgress\<close> from the response on; the result is whether polling continues. The
  alert is scheduled by \<^verbatim>\<open>setTimeout\<close> and shown 100 ms later. The product
  \<open>data.progress * 100\<close> is the exact one here; the double the code rounds can differ from
  it by a rounding error, which matters only for a progress within such an error of a
  half-integer percentage (0.995, say), not for a progress of 1 or more.
\<close>

definition pollProgress :: "pollResult \<Rightarrow> mixer \<Rightarrow> mixer \<times> bool" where
  "pollProgress r st =
     (case r of
        PollFailed \<Rightarrow> (st\<lparr>console := console st @ [''Progress poll error:'']\<rparr>, True)
      | PollNotOk \<Rightarrow> (st\<lparr>console := console st @ [''Failed to fetch progress'']\<rparr>, True)
      | PollData status p \<Rightarrow>
          (let progressValue = jround (jmul p (Num 100));
               st1 = st\<lparr>progress := progressValue\<rparr>
           in
             if status = ''completed'' \<and> jle (Num 100) progressValue then
               (let st2 = stopPolling st1
                in (st2\<lparr>separating := False, progress := Num 100,
                        alerts := alerts st2 @ [''Separation complete.'']\<rparr>, False))
             else if status = ''error'' then
               (let st2 = stopPolling st1
                in (st2\<lparr>separating := False,
                        alerts := alerts st2 @ [''Separation error occurred.'']\<rparr>, False))
             else (st1, True)))"

text \<open>
  The interval set by \<^verbatim>\<open>handleUpload\<close> fires: if it is still active, its callback calls
  \<^verbatim>\<open>pollProgress\<close>, which sends its request and waits.
\<close>

definition intervalTick :: "nat \<Rightarrow> mixer \<Rightarrow> mixer" where
  "intervalTick i st =
     (if i \<in> set (intervals st) then st\<lparr>pollsInFlight := Suc (pollsInFlight st)\<rparr> else st)"

text \<open>
  A pending progress request gets its response: \<^verbatim>\<open>pollProgress\<close> resumes, and then the
  interval callback, which clears the interval when polling is not to continue.
\<close>

definition pollResponse :: "pollResult \<Rightarrow> mixer \<Rightarrow> mixer" where
  "pollResponse r st =
     (if pollsInFlight st = 0 then st
      else
        (case pollProgress r (st\<lparr>pollsInFlight := pollsInFlight st - 1\<rparr>) of
           (st1, shouldContinue) \<Rightarrow>
             if \<not> shouldContinue then
               stopPolling st1
             else st1))"

text \<open>
  The outcome of the request to \<^verbatim>\<open>/start_separation\<close>: the \<^verbatim>\<open>fetch\<close> rejects with an
  error of the given message, the answer is not ok, or it is ok and carries a status.
\<close>

datatype startResult = StartRejected string | StartNotOk | StartStatus string

text \<open>
  \<^verbatim>\<open>handleUpload\<close> for a chosen file, given the gains \<^verbatim>\<open>handleFileSelect\<close> predicted (if
  any) and the outcome of the request. The catch block logs the error it caught, whose
  message is the console line here, and alerts.
\<close>

definition handleUpload :: "gainSettings option \<Rightarrow> startResult \<Rightarrow> mixer \<Rightarrow> mixer" where
  "handleUpload predicted r st =
     (let st0 = (case predicted of Some g \<Rightarrow> st\<lparr>mixer.gains := g\<rparr> | None \<Rightarrow> st);
          st1 = st0\<lparr>separating := True, progress := Num 0\<rparr>;
          failed = (\<lambda>message.
                      st1\<lparr>console := console st1 @ [message],
                          alerts := alerts st1 @ [''Error starting separation''],
                          separating := False, progress := Num 0\<rparr>)
      in
        (case r of
           StartRejected message \<Rightarrow> failed message
         | StartNotOk \<Rightarrow> failed ''Separation failed''
         | StartStatus status \<Rightarrow>
             if status = ''processing'' then
               (let st2 = stopPolling st1;
                    i = nextTimer st2
                in st2\<lparr>intervals := intervals st2 @ [i], progressIntervalRef := Some i,
                       nextTimer := Suc i\<rparr>)
             else failed ''Unexpected response''))"

section \<open>Saved songs and the application state (App.js)\<close>

text \<open>
  A saved mix, as \<^verbatim>\<open>handleSave\<close> of the mixer builds it: \<^verbatim>\<open>details\<close> is the
  human-readable gain summary; \<^verbatim>\<open>gains\<close> and \<^verbatim>\<open>features\<close> may be missing (null).
\<close>

record song =
  title :: string
  artist :: string
  details :: string
  gains :: "gainSettings option"
  features :: "jsnum list option"


text \<open>
  The state of \<^verbatim>\<open>App\<close>: the React state (\<^verbatim>\<open>user\<close>, \<^verbatim>\<open>tab\<close>,
  \<^verbatim>\<open>songsByUser\<close>), the model held in \<^verbatim>\<open>userModelRef\<close>, the stored weights, the
  alerts shown and console lines written so far, and whether an error thrown while React
  rendered has unmounted the tree (there is no error boundary). \<^verbatim>\<open>songsByUser\<close> is a
  plain object; the map holds its own properties.
\<close>

record app =
  user :: "string option"
  tab :: string
  songsByUser :: "string \<rightharpoonup> song list"
  userModelRef :: "userPreferenceModel option"
  modelStorage :: localStorage
  appAlerts :: "string list"
  appConsole :: "string list"
  crashed :: bool

text \<open>
  The user the handlers work for: \<^verbatim>\<open>!user\<close> holds for null and for the empty string,
  and then there is none.
\<close>

definition currentUser :: "app \<Rightarrow> string option" where
  "currentUser a = (case user a of None \<Rightarrow> None | Some u \<Rightarrow> if u = [] then None else Some u)"

text \<open>
  The property names every plain object inherits from \<^verbatim>\<open>Object.prototype\<close>: their
  values are functions, and for \<^verbatim>\<open>__proto__\<close> the prototype object itself.
\<close>

definition objectPrototypeKeys :: "string list" where
  "objectPrototypeKeys =
     [''constructor'', ''hasOwnProperty'', ''isPrototypeOf'', ''propertyIsEnumerable'',
      ''toLocaleString'', ''toString'', ''valueOf'', ''__proto__'', ''__defineGetter__'',
      ''__defineSetter__'', ''__lookupGetter__'', ''__lookupSetter__'']"

text \<open>
  \<^verbatim>\<open>prev[user] || []\<close>: the user's own list if there is one; otherwise, for a user named
  like an inherited property, the inherited value, which is truthy and not an array
  (\<open>None\<close>); otherwise the empty list.
\<close>

definition songsOf :: "(string \<rightharpoonup> song list) \<Rightarrow> string \<Rightarrow> song list option" where
  "songsOf prev u =
     (case prev u of
        Some list \<Rightarrow> Some list
      | None \<Rightarrow> if u \<in> set objectPrototypeKeys then None else Some [])"

text \<open>
  \<^verbatim>\<open>handleSaveMix\<close>. When \<^verbatim>\<open>prev[user]\<close> is an inherited value, \<^verbatim>\<open>list.some\<close> is not a
  function and the updater throws: no state update is applied and the tree is unmounted;
  the training before it has been done.
\<close>

definition handleSaveMix ::
  "fitter \<Rightarrow> (nat \<Rightarrow> nat \<Rightarrow> nat \<Rightarrow> real) \<Rightarrow> song \<Rightarrow> app \<Rightarrow> app" where
  "handleSaveMix fit init mix a =
     (case currentUser a of
        None \<Rightarrow> a\<lparr>appAlerts := appAlerts a @ [''Select a user first!'']\<rparr>
      | Some u \<Rightarrow>
        (let a1 =
               (case (userModelRef a, song.features mix, song.gains mix) of
                  (Some m, Some f, Some g) \<Rightarrow>
                    (case train fit init f g (m, modelStorage a) of
                       ((m', store'), Inr _) \<Rightarrow>
                         a\<lparr>userModelRef := Some m', modelStorage := store',
                           appConsole := appConsole a @ [''Model trained with saved mix'']\<rparr>
                     | ((m', store'), Inl e) \<Rightarrow>
                         a\<lparr>userModelRef := Some m', modelStorage := store',
                           appConsole := appConsole a @ [''Error training model:'']\<rparr>)
                | _ \<Rightarrow> a)
         in
           (case songsOf (songsByUser a1) u of
              None \<Rightarrow> a1\<lparr>crashed := True\<rparr>
            | Some list \<Rightarrow>
                (let duplicate = list_ex (\<lambda>s. title s = title mix \<and> details s = details mix) list;
                     a2 = (if duplicate then a1
                           else a1\<lparr>songsByUser := (songsByUser a1)(u \<mapsto> list @ [mix])\<rparr>)
                 in a2\<lparr>tab := ''mysongs''\<rparr>))))"



section \<open>Example data\<close>

text \<open>
  A saved mix of \<^verbatim>\<open>track.mp3\<close> with the vocals raised by 6 dB, a session of user Alex whose
  model has just been created, and a stand-in for the optimiser that moves every bias by
  one: the concrete inputs at which the theorems below are instantiated.
\<close>

definition exampleGains :: gainSettings where
  "exampleGains = \<lparr> vocals = Num 6, drums = Num 0, bass = Num 0, other = Num 0 \<rparr>"

definition exampleMix :: song where
  "exampleMix =
     \<lparr> title = ''track'', artist = ''Custom Mix'',
       details = ''Vocals: +6 dB, Drums: 0 dB, Bass: 0 dB, Other: 0 dB'',
       gains = Some exampleGains, features = Some (replicate 23 (Num 0)) \<rparr>"

definition exampleInit :: "nat \<Rightarrow> nat \<Rightarrow> nat \<Rightarrow> real" where
  "exampleInit l j i = real (l + j + i) / 100"

definition shiftBias :: "weights \<Rightarrow> weights" where
  "shiftBias ws = map (map (\<lambda>(w, b). (w, b + 1))) ws"

definition exampleFit :: fitter where
  "exampleFit ws xs ys epochs batchSize = Some (shiftBias ws)"

definition alexModel :: userPreferenceModel where
  "alexModel = \<lparr> userId = ''Alex'', model = Some (createModel exampleInit), isInitialized = True \<rparr>"

definition alexApp :: app where
  "alexApp =
     \<lparr> user = Some ''Alex'', tab = ''mixer'', songsByUser = Map.empty,
       userModelRef = Some alexModel, modelStorage = Map.empty,
       appAlerts = [], appConsole = [], crashed = False \<rparr>"


text \<open>The same session for a user who chose the name \<^verbatim>\<open>constructor\<close>.\<close>

definition constructorApp :: app where
  "constructorApp =
     alexApp\<lparr> user := Some ''constructor'',
              userModelRef := Some (alexModel\<lparr>userId := ''constructor''\<rparr>) \<rparr>"

text \<open>
  A clip of eight samples in a buffer of 44100 Hz and the features object
  \<^verbatim>\<open>extractAudioFeatures\<close> builds for it. The spectral flux is computed by
  \<^verbatim>\<open>calculateSpectralFlux\<close>; the other entries are what the extractor's other functions
  give on these samples: the root of the mean square \<open>3 / 8\<close>, one zero crossing in eight
  samples, the centroid \<open>(44100 / 4096) * 16 / 4\<close>, the rolloff reached at index 6, no
  energy peak and so the tempo clamped to 60, and the logarithms of one plus the first
  five magnitudes. With it, the input vector built from the normalised features.
\<close>

definition shortClip :: "real list" where
  "shortClip = [0, 1 / 2, 1, 1 / 2, 0, - 1 / 2, - 1, - 1 / 2]"

definition shortClipFeatures :: rawFeatures where
  "shortClipFeatures =
     \<lparr> rawFeatures.duration = Num (8 / 44100), sampleRate = Num 44100, rms = Num (sqrt (3 / 8)),
       zeroCrossingRate = Num (1 / 8), spectralCentroid = Num (44100 / 1024),
       spectralRolloff = Num (6 * 44100 / 4096),
       spectralFlux = calculateSpectralFlux shortClip, tempo = Num 60,
       mfcc = [Num (ln 1), Num (ln (3 / 2)), Num (ln 2), Num (ln (3 / 2)), Num (ln 1)] \<rparr>"

definition shortClipVector :: "jsnum list" where
  "shortClipVector =
     featuresToVector (normalizeFeatures shortClipFeatures)
       (classifyGenre (normalizeFeatures shortClipFeatures))"

text \<open>
  A mixer playing a rendered mix, 10 s into a track of 180 s, and the same mixer before
  anything was uploaded.
\<close>

definition playingAudio :: audio where
  "playingAudio =
     \<lparr> src = ''http://127.0.0.1:8000/output/mix.wav'', currentTime = 10,
       duration = Some 180, volume = 1, paused = False, readyState = 4 \<rparr>"

definition idleMixer :: mixer where
  "idleMixer =
     \<lparr> mixer.gains = \<lparr> vocals = Num 0, drums = Num 0, bass = Num 0, other = Num 0 \<rparr>,
       separating = False, progress = Num 0, playing = False, paused = False,
       audioRef = None, progressIntervalRef = None, updateTimeoutRef = None,
       audios = (\<lambda>a. newAudioElement []), nextAudio = 0, clock = 0,
       timeouts = [], intervals = [], nextTimer = 1, pollsInFlight = 0,
       mixRequests = [], alerts = [], console = [] \<rparr>"

definition playingMixer :: mixer where
  "playingMixer =
     idleMixer\<lparr> progress := Num 100, playing := True, audioRef := Some 0,
                audios := (audios idleMixer)(0 := playingAudio), nextAudio := 1 \<rparr>"

text \<open>Ten further slider edits, 50 ms apart.\<close>

definition exampleBurst :: "(nat \<times> stem \<times> int) list" where
  "exampleBurst =
     [(50, Vocals, 2), (50, Vocals, 3), (50, Drums, - 1), (50, Vocals, 4), (50, Vocals, 5),
      (50, Drums, - 2), (50, Vocals, 6), (50, Bass, 1), (50, Bass, 0), (50, Vocals, 6)]"

text \<open>
  A live update whose render takes two seconds: the request goes out at 10 s, the mix
  plays on, the response and the new element's data arrive, and the handover starts.
\<close>

definition lateResponse :: "mixer \<times> capture option" where
  "lateResponse =
     (case updatePlayingAudio_request exampleGains playingMixer of
        (st1, c) \<Rightarrow>
          (case updatePlayingAudio_response (Body (Some ''/output/mix2.wav'')) (playback 2 st1) of
             (st2, n) \<Rightarrow> (loaded 1 180 st2, c)))"

definition lateHandover :: "bool \<Rightarrow> bool \<Rightarrow> (handover \<times> mixer) option" where
  "lateHandover playResolves fallbackResolves =
     (case lateResponse of
        (st, Some c) \<Rightarrow> Some (handleCanPlay playResolves fallbackResolves (beginHandover c 1) st)
      | (st, None) \<Rightarrow> None)"

text \<open>
  An upload whose separation starts, two interval ticks before any response, and then
  the two responses, both reporting the finished job.
\<close>

definition overlappingPolls :: mixer where
  "overlappingPolls =
     pollResponse (PollData ''completed'' (Num 1))
       (pollResponse (PollData ''completed'' (Num 1))
          (intervalTick 1
             (intervalTick 1 (handleUpload None (StartStatus ''processing'') idleMixer))))"

definition savedOnce :: app where
  "savedOnce = handleSaveMix exampleFit exampleInit exampleMix alexApp"

section \<open>Properties of the numbers and of the feature extractor\<close>

lemma jadd_NaN_right: "jadd x NaN = NaN"
  by (cases x) simp_all

lemma jmul_NaN_right: "jmul x NaN = NaN"
  by (cases x) simp_all

lemma float32_NaN: "float32 NaN = NaN"
  by (simp add: float32_def)

lemma float32_zero: "float32 (Num 0) = Num 0"
  by (simp add: float32_def)

lemma jmin_Num: "jmin (Num a) (Num b) = Num (min a b)"
  by (simp add: jmin_def min_def)

lemma jmax_Num: "jmax (Num a) (Num b) = Num (max a b)"
  by (simp add: jmax_def max_def)

lemma jmin_NaN: "jmin NaN b = NaN" "jmin a NaN = NaN"
  by (simp_all add: jmin_def)

lemma jmax_NaN: "jmax NaN b = NaN" "jmax a NaN = NaN"
  by (simp_all add: jmax_def)

lemma length_classifyGenre: "length (classifyGenre f) = 10"
  by (simp add: classifyGenre_def Let_def)

lemma length_featuresToVector:
  "length (featuresToVector f (classifyGenre f)) = 23"
  by (simp add: featuresToVector_def length_classifyGenre)

lemma calculateSpectralFlux_short:
  assumes "length channelData < 1024"
  shows "calculateSpectralFlux channelData = NaN"
  using assms by (simp add: calculateSpectralFlux_def Let_def)




section \<open>Properties of the preference model\<close>

lemma dotStep_zero: "dotStep (Num 0) (Num 0, w) = Num 0"
  by (simp add: dotStep_def float32_zero)

lemma foldl_dotStep_zero:
  "\<forall>xw \<in> set zs. fst xw = Num 0 \<Longrightarrow> foldl dotStep (Num 0) zs = Num 0"
  by (induction zs) (auto simp: dotStep_def float32_zero)

lemma dot_zero: "dot (replicate n (Num 0)) w = Num 0"
proof -
  have "\<forall>xw \<in> set (zip (replicate n (Num 0)) w). fst xw = Num 0"
    by (auto dest: set_zip_leftD)
  then show ?thesis unfolding dot_def by (rule foldl_dotStep_zero)
qed

lemma relu_0: "relu (Num 0) = Num 0"
  by simp

lemma dense_zero:
  "dense_apply act (denseLayer d i u) (replicate n (Num 0)) = replicate u (act (Num 0))"
  by (simp add: dense_apply_def denseLayer_def dot_zero float32_zero map_replicate_const comp_def)

lemma replicate_4: "replicate outputSize x = [x, x, x, x]"
  by (simp add: outputSize_def eval_nat_numeral)

lemma forward_zero:
  "forward (createModel init) (replicate n (Num 0)) = [Num 0, Num 0, Num 0, Num 0]"
  by (simp add: forward_def createModel_def float32_zero dense_zero replicate_4)

lemma js_round_m6: "js_round (- 6) = - 6"
  by (simp add: js_round_def)

lemma predict_fresh_zero:
  assumes "store (storageKey uid) = None"
  shows "predict init store (newUserPreferenceModel uid) (replicate 23 (Num 0)) =
           (\<lparr> userId = uid, model = Some (createModel init), isInitialized = True \<rparr>,
            Inr \<lparr> vocals = Num (- 6), drums = Num (- 6), bass = Num (- 6), other = Num (- 6) \<rparr>)"
  using assms
  by (simp add: predict_def initialize_def loadWeights_def newUserPreferenceModel_def
      forward_zero inputSize_def jsub_def js_round_m6 jmin_Num jmax_Num)

text \<open>
  Claim C9. On the all-zero input vector a freshly created model (no stored weights for
  the user, so \<^verbatim>\<open>initialize\<close> builds the default one, whatever the kernel draws) has
  network output 0 on each of the four stems, and \<^verbatim>\<open>predict\<close> returns \<open>-6\<close> dB on
  all four stems.
\<close>

theorem predict_zero_input_default_model:
  assumes "store (storageKey uid) = None"
  shows "forward (createModel init) (replicate 23 (Num 0)) = [Num 0, Num 0, Num 0, Num 0]
       \<and> predict init store (newUserPreferenceModel uid) (replicate 23 (Num 0)) =
           (\<lparr> userId = uid, model = Some (createModel init), isInitialized = True \<rparr>,
            Inr \<lparr> vocals = Num (- 6), drums = Num (- 6), bass = Num (- 6), other = Num (- 6) \<rparr>)"
  using predict_fresh_zero [of store uid init] assms by (simp add: forward_zero)

theorem predict_zero_input_default_model_witness:
  "forward (createModel (\<lambda>l j i. real (l + j + i) / 100)) (replicate 23 (Num 0)) =
     [Num 0, Num 0, Num 0, Num 0]
   \<and> predict (\<lambda>l j i. real (l + j + i) / 100) Map.empty (newUserPreferenceModel ''Sam'')
        (replicate 23 (Num 0)) =
       (\<lparr> userId = ''Sam'', model = Some (createModel (\<lambda>l j i. real (l + j + i) / 100)),
          isInitialized = True \<rparr>,
        Inr \<lparr> vocals = Num (- 6), drums = Num (- 6), bass = Num (- 6), other = Num (- 6) \<rparr>)"
  using predict_zero_input_default_model
    [of Map.empty "''Sam''" "\<lambda>l j i. real (l + j + i) / 100"]
  by simp

text \<open>
  A NaN among the 23 inputs reaches every unit of every layer, and \<^verbatim>\<open>predict\<close>
  returns NaN on all four stems: neither \<^verbatim>\<open>Math.round\<close> nor the clamp stops it.
\<close>

lemma dotStep_NaN_acc: "dotStep NaN xw = NaN"
  by (simp add: dotStep_def float32_NaN)

lemma dotStep_NaN_input: "dotStep acc (NaN, w) = NaN"
  by (simp add: dotStep_def float32_NaN jadd_NaN_right)

lemma foldl_dotStep_NaN_acc: "foldl dotStep NaN zs = NaN"
  by (induction zs) (simp_all add: dotStep_NaN_acc)

lemma foldl_dotStep_NaN:
  "(NaN, w) \<in> set zs \<Longrightarrow> foldl dotStep acc zs = NaN"
proof (induction zs arbitrary: acc)
  case Nil
  then show ?case by simp
next
  case (Cons z zs)
  show ?case
  proof (cases "z = (NaN, w)")
    case True
    then show ?thesis by (simp add: dotStep_NaN_input foldl_dotStep_NaN_acc)
  next
    case False
    with Cons.prems have "(NaN, w) \<in> set zs" by simp
    then show ?thesis by (simp add: Cons.IH)
  qed
qed

lemma dot_NaN:
  assumes "NaN \<in> set x" and "length x \<le> length w"
  shows "dot x w = NaN"
proof -
  from assms(1) obtain i where i: "i < length x" "x ! i = NaN"
    by (auto simp: in_set_conv_nth)
  with assms(2) have "(x ! i, w ! i) \<in> set (zip x w)"
    by (auto simp: in_set_zip intro!: exI [of _ i])
  with i have "(NaN, w ! i) \<in> set (zip x w)" by simp
  then show ?thesis unfolding dot_def by (rule foldl_dotStep_NaN)
qed

lemma dense_NaN:
  assumes "NaN \<in> set x" and "\<forall>u \<in> set l. length x \<le> length (fst u)" and "act NaN = NaN"
  shows "dense_apply act l x = replicate (length l) NaN"
proof -
  have "\<And>u. u \<in> set l \<Longrightarrow> (case u of (w, b) \<Rightarrow> act (float32 (jadd (dot x w) (Num b)))) = NaN"
    using assms by (auto simp: dot_NaN float32_NaN)
  then show ?thesis
    unfolding dense_apply_def by (simp add: map_replicate_const [symmetric] cong: map_cong)
qed

lemma shapes_okD:
  assumes "shapes_ok ws"
  obtains l1 l2 l3 l4 where "ws = [l1, l2, l3, l4]"
    and "length l1 = 64" "\<forall>u \<in> set l1. length (fst u) = 23"
    and "length l2 = 32" "\<forall>u \<in> set l2. length (fst u) = 64"
    and "length l3 = 16" "\<forall>u \<in> set l3. length (fst u) = 32"
    and "length l4 = 4" "\<forall>u \<in> set l4. length (fst u) = 16"
proof -
  have r: "length l = n \<and> (\<forall>u \<in> set l. length (fst u) = c)"
    if "map (length \<circ> fst) l = replicate n c" for l :: dense and n c
  proof
    from that have "length (map (length \<circ> fst) l) = length (replicate n c)" by simp
    then show "length l = n" by simp
    show "\<forall>u \<in> set l. length (fst u) = c"
    proof
      fix u assume "u \<in> set l"
      then have "(length \<circ> fst) u \<in> set (map (length \<circ> fst) l)" by (simp del: o_apply)
      with that show "length (fst u) = c" by (auto simp del: set_map)
    qed
  qed
  from assms obtain l1 l2 l3 l4 where ws: "ws = [l1, l2, l3, l4]"
    by (auto simp: shapes_ok_def map_eq_Cons_conv)
  with assms have m: "map (length \<circ> fst) l1 = replicate 64 23"
    "map (length \<circ> fst) l2 = replicate 32 64" "map (length \<circ> fst) l3 = replicate 16 32"
    "map (length \<circ> fst) l4 = replicate 4 16"
    by (simp_all add: shapes_ok_def inputSize_def outputSize_def)
  from r [OF m(1)] r [OF m(2)] r [OF m(3)] r [OF m(4)] ws that show thesis by blast
qed

lemma forward_NaN:
  assumes "shapes_ok ws" and "length x = 23" and "NaN \<in> set x"
  shows "forward ws x = [NaN, NaN, NaN, NaN]"
proof -
  from assms(1) obtain l1 l2 l3 l4 where ws: "ws = [l1, l2, l3, l4]"
    and l: "length l1 = 64" "\<forall>u \<in> set l1. length (fst u) = 23"
      "length l2 = 32" "\<forall>u \<in> set l2. length (fst u) = 64"
      "length l3 = 16" "\<forall>u \<in> set l3. length (fst u) = 32"
      "length l4 = 4" "\<forall>u \<in> set l4. length (fst u) = 16"
    by (rule shapes_okD)
  have x: "NaN \<in> set (map float32 x)"
    using assms(3) float32_NaN by force
  have n: "NaN \<in> set (replicate k NaN)" if "0 < k" for k
    using that by simp
  have a1: "dense_apply relu l1 (map float32 x) = replicate 64 NaN"
    using dense_NaN [OF x, of l1 relu] l(1,2) assms(2) by simp
  have a2: "dense_apply relu l2 (replicate 64 NaN) = replicate 32 NaN"
    using dense_NaN [OF n, of 64 l2 relu] l(3,4) by simp
  have a3: "dense_apply relu l3 (replicate 32 NaN) = replicate 16 NaN"
    using dense_NaN [OF n, of 32 l3 relu] l(5,6) by simp
  have a4: "dense_apply jtanh l4 (replicate 16 NaN) = replicate 4 NaN"
    using dense_NaN [OF n, of 16 l4 jtanh] l(7,8) by simp
  have "forward ws x =
      dense_apply jtanh l4
        (dense_apply relu l3 (dense_apply relu l2 (dense_apply relu l1 (map float32 x))))"
    by (simp add: forward_def ws)
  also have "\<dots> = replicate 4 NaN"
    by (simp only: a1 a2 a3 a4)
  also have "\<dots> = [NaN, NaN, NaN, NaN]"
    by (simp add: eval_nat_numeral)
  finally show ?thesis .
qed

lemma shapes_ok_createModel: "shapes_ok (createModel init)"
  by (simp add: shapes_ok_def createModel_def denseLayer_def comp_def map_replicate_const)

lemma predict_NaN_input:
  assumes "isInitialized m" and "model m = Some ws" and "shapes_ok ws"
    and "length x = 23" and "NaN \<in> set x"
  shows "predict init store m x =
           (m, Inr \<lparr> vocals = NaN, drums = NaN, bass = NaN, other = NaN \<rparr>)"
  using assms
  by (simp add: predict_def initialize_def inputSize_def forward_NaN jsub_def jmin_NaN jmax_NaN)

text \<open>
  What \<^verbatim>\<open>predict\<close> does give: each stem is the rounded and clamped image of the
  network output for it, an integer between \<open>-24\<close> and \<open>12\<close> unless it is NaN.
\<close>

lemma js_round_Ints: "js_round x \<in> \<int>"
  by (simp add: js_round_def)

lemma js_round_mono: "x \<le> y \<Longrightarrow> js_round x \<le> js_round y"
  by (simp add: js_round_def floor_mono)

lemma clamp_round_number:
  "jmax (Num (- 24)) (jmin (Num 12) (jround (jsub (jmul (Num v) (Num 18)) (Num 6)))) =
     Num (max (- 24) (min 12 (js_round (v * 18 - 6))))"
  by (simp add: jsub_def jmin_Num jmax_Num min.commute)

lemma clamp_round_number':
  "jmax (Num (- 24)) (jmin (Num 12) (jround (jsub (Num a) (Num 6)))) =
     Num (max (- 24) (min 12 (js_round (a - 6))))"
  by (simp add: jsub_def jmin_Num jmax_Num min.commute)

lemma clamp_round_range:
  "max (- 24) (min 12 (js_round x)) \<in> \<int> \<and> - 24 \<le> max (- 24) (min 12 (js_round x))
     \<and> max (- 24) (min 12 (js_round x)) \<le> 12"
  by (auto simp: js_round_def max_def min_def)

lemma clamp_round_cases:
  "jmax (Num (- 24)) (jmin (Num 12) (jround (jsub (jmul v (Num 18)) (Num 6)))) = NaN
   \<or> (\<exists>d. jmax (Num (- 24)) (jmin (Num 12) (jround (jsub (jmul v (Num 18)) (Num 6)))) = Num d
          \<and> d \<in> \<int> \<and> - 24 \<le> d \<and> d \<le> 12)"
proof (cases v)
  case (Num a)
  then show ?thesis using clamp_round_range [of "a * 18 - 6"] by (simp add: clamp_round_number')
qed (simp_all add: jsub_def jmin_def jmax_def)

lemma predict_Inr:
  assumes "predict init store m x = (m', Inr g)"
  shows "\<exists>ws v0 v1 v2 v3. model m' = Some ws \<and> length x = inputSize \<and> forward ws x = [v0, v1, v2, v3]
     \<and> vocals g = jmax (Num (- 24)) (jmin (Num 12) (jround (jsub (jmul v0 (Num 18)) (Num 6))))
     \<and> drums g = jmax (Num (- 24)) (jmin (Num 12) (jround (jsub (jmul v1 (Num 18)) (Num 6))))
     \<and> bass g = jmax (Num (- 24)) (jmin (Num 12) (jround (jsub (jmul v2 (Num 18)) (Num 6))))
     \<and> other g = jmax (Num (- 24)) (jmin (Num 12) (jround (jsub (jmul v3 (Num 18)) (Num 6))))"
  using assms
  by (auto simp: predict_def Let_def split: prod.splits sum.splits option.splits if_splits list.splits)

lemma predict_stems_integer_or_NaN:
  assumes "predict init store m x = (m', Inr g)"
  shows "\<forall>s \<in> {vocals g, drums g, bass g, other g}.
           s = NaN \<or> (\<exists>d. s = Num d \<and> d \<in> \<int> \<and> - 24 \<le> d \<and> d \<le> 12)"
proof -
  from predict_Inr [OF assms] obtain v0 v1 v2 v3 where
    "vocals g = jmax (Num (- 24)) (jmin (Num 12) (jround (jsub (jmul v0 (Num 18)) (Num 6))))"
    "drums g = jmax (Num (- 24)) (jmin (Num 12) (jround (jsub (jmul v1 (Num 18)) (Num 6))))"
    "bass g = jmax (Num (- 24)) (jmin (Num 12) (jround (jsub (jmul v2 (Num 18)) (Num 6))))"
    "other g = jmax (Num (- 24)) (jmin (Num 12) (jround (jsub (jmul v3 (Num 18)) (Num 6))))"
    by blast
  then show ?thesis
    using clamp_round_cases [of v0] clamp_round_cases [of v1] clamp_round_cases [of v2]
      clamp_round_cases [of v3]
    by simp
qed

lemma predict_number_outputs:
  assumes "isInitialized m" and "model m = Some ws" and "length x = 23"
    and "forward ws x = [Num v0, Num v1, Num v2, Num v3]"
  shows "predict init store m x =
           (m, Inr \<lparr> vocals = Num (max (- 24) (min 12 (js_round (v0 * 18 - 6)))),
                     drums = Num (max (- 24) (min 12 (js_round (v1 * 18 - 6)))),
                     bass = Num (max (- 24) (min 12 (js_round (v2 * 18 - 6)))),
                     other = Num (max (- 24) (min 12 (js_round (v3 * 18 - 6)))) \<rparr>)"
  using assms
  by (simp add: predict_def initialize_def inputSize_def clamp_round_number')

lemma shortClipVector_facts:
  "length shortClipVector = 23" "NaN \<in> set shortClipVector"
proof -
  show "length shortClipVector = 23"
    by (simp add: shortClipVector_def length_featuresToVector)
  have l: "length shortClip < 1024" by (simp add: shortClip_def)
  have "features.spectralFlux (normalizeFeatures shortClipFeatures) = NaN"
    by (simp add: normalizeFeatures_def shortClipFeatures_def calculateSpectralFlux_short [OF l]
        jmin_NaN)
  then show "NaN \<in> set shortClipVector"
    by (simp add: shortClipVector_def featuresToVector_def)
qed

text \<open>
  Claim C2 fails on an input vector the extractor itself builds. For a clip of fewer
  than 1024 samples the seventh entry of the model input, the spectral flux, is NaN;
  \<^verbatim>\<open>predict\<close> on a freshly created model then returns gains whose four stems are all
  NaN, not integers between \<open>-24\<close> and \<open>12\<close>.
\<close>

theorem short_clip_prediction_is_not_a_number:
  "length shortClipVector = 23
   \<and> shortClipVector ! 6 = NaN
   \<and> predict exampleInit Map.empty (newUserPreferenceModel ''Alex'') shortClipVector =
       (alexModel, Inr \<lparr> vocals = NaN, drums = NaN, bass = NaN, other = NaN \<rparr>)"
proof -
  have l: "length shortClip < 1024" by (simp add: shortClip_def)
  have f: "shortClipVector ! 6 = NaN"
    by (simp add: shortClipVector_def featuresToVector_def normalizeFeatures_def
        shortClipFeatures_def calculateSpectralFlux_short [OF l] jmin_NaN)
  have i: "initialize exampleInit Map.empty (newUserPreferenceModel ''Alex'') = (alexModel, Inr ())"
    by (simp add: initialize_def loadWeights_def newUserPreferenceModel_def alexModel_def)
  have a: "isInitialized alexModel" "model alexModel = Some (createModel exampleInit)"
    by (simp_all add: alexModel_def)
  have p: "predict exampleInit Map.empty alexModel shortClipVector =
       (alexModel, Inr \<lparr> vocals = NaN, drums = NaN, bass = NaN, other = NaN \<rparr>)"
    by (rule predict_NaN_input [OF a shapes_ok_createModel shortClipVector_facts])
  have j: "initialize exampleInit Map.empty alexModel = (alexModel, Inr ())"
    using a by (simp add: initialize_def)
  have "predict exampleInit Map.empty (newUserPreferenceModel ''Alex'') shortClipVector =
      predict exampleInit Map.empty alexModel shortClipVector"
    by (simp add: predict_def i j)
  with p f shortClipVector_facts(1) show ?thesis by simp
qed

section \<open>Properties of saving and deleting songs\<close>

lemma currentUser_handleSaveMix: "currentUser (handleSaveMix fit init mix a) = currentUser a"
  by (simp add: handleSaveMix_def currentUser_def Let_def split: option.splits prod.splits sum.splits)

lemma songs_handleSaveMix:
  assumes "currentUser a = Some u"
  shows "songsByUser (handleSaveMix fit init mix a) =
           (case songsOf (songsByUser a) u of
              None \<Rightarrow> songsByUser a
            | Some list \<Rightarrow>
                if list_ex (\<lambda>s. title s = title mix \<and> details s = details mix) list
                then songsByUser a
                else (songsByUser a)(u \<mapsto> list @ [mix]))"
  using assms
  by (simp add: handleSaveMix_def Let_def split: option.splits prod.splits sum.splits)

lemma crashed_handleSaveMix:
  assumes "currentUser a = Some u"
  shows "crashed (handleSaveMix fit init mix a) = (crashed a \<or> songsOf (songsByUser a) u = None)"
  using assms
  by (auto simp add: handleSaveMix_def Let_def split: option.splits prod.splits sum.splits)

lemma model_handleSaveMix:
  assumes "currentUser a = Some u" "userModelRef a = Some m"
    "song.features mix = Some f" "song.gains mix = Some g"
  shows "userModelRef (handleSaveMix fit init mix a) = Some (fst (fst (train fit init f g (m, modelStorage a))))"
    and "modelStorage (handleSaveMix fit init mix a) = snd (fst (train fit init f g (m, modelStorage a)))"
  using assms
  by (auto simp add: handleSaveMix_def Let_def split: option.splits prod.splits sum.splits)

lemma songsOf_own: "prev u = Some list \<Longrightarrow> songsOf prev u = Some list"
  by (simp add: songsOf_def)

text \<open>
  Saving for a user whose \<^verbatim>\<open>prev[user]\<close> is a list (an own entry, or no entry under a
  name that is not inherited): a mix whose title and summary are those of a song of the
  list leaves the song lists unchanged, and two saves with the same title and summary
  store the first only.
\<close>

lemma handleSaveMix_duplicate_rejected_for_listed_user:
  assumes "currentUser a = Some u" and "songsOf (songsByUser a) u = Some list"
    and "title mix2 = title mix1" and "details mix2 = details mix1"
  shows "(list_ex (\<lambda>s. title s = title mix1 \<and> details s = details mix1) list
            \<longrightarrow> songsByUser (handleSaveMix fit init mix1 a) = songsByUser a)
       \<and> songsByUser (handleSaveMix fit init mix2 (handleSaveMix fit init mix1 a)) =
           songsByUser (handleSaveMix fit init mix1 a)
       \<and> (\<not> list_ex (\<lambda>s. title s = title mix1 \<and> details s = details mix1) list
            \<longrightarrow> songsByUser (handleSaveMix fit init mix2 (handleSaveMix fit init mix1 a)) u =
                  Some (list @ [mix1])
              \<and> length (filter (\<lambda>s. title s = title mix1 \<and> details s = details mix1)
                   (list @ [mix1])) = 1)"
proof -
  let ?dup = "\<lambda>s. title s = title mix1 \<and> details s = details mix1"
  let ?a1 = "handleSaveMix fit init mix1 a"
  have u1: "currentUser ?a1 = Some u" using assms(1) by (simp add: currentUser_handleSaveMix)
  have s1: "songsByUser ?a1 = (if list_ex ?dup list then songsByUser a
            else (songsByUser a)(u \<mapsto> list @ [mix1]))"
    by (simp add: songs_handleSaveMix [OF assms(1)] assms(2))
  have own: "list_ex ?dup list \<Longrightarrow> songsOf (songsByUser ?a1) u = Some list"
    by (simp add: s1 assms(2))
  have new: "\<not> list_ex ?dup list \<Longrightarrow> songsOf (songsByUser ?a1) u = Some (list @ [mix1])"
    by (simp add: s1 songsOf_def)
  have s2: "songsByUser (handleSaveMix fit init mix2 ?a1) = songsByUser ?a1"
  proof (cases "list_ex ?dup list")
    case True
    with own show ?thesis by (simp add: songs_handleSaveMix [OF u1] assms(3,4))
  next
    case False
    with new show ?thesis by (simp add: songs_handleSaveMix [OF u1] assms(3,4))
  qed
  have none: "\<not> list_ex ?dup xs \<Longrightarrow> filter ?dup xs = []" for xs
    by (induction xs) auto
  show ?thesis
    using s1 s2 none [of list] by auto
qed

text \<open>
  Claim C5 fails for a user named like an inherited property. For the user
  \<^verbatim>\<open>constructor\<close>, who has no songs yet, \<^verbatim>\<open>prev[user]\<close> is the inherited function,
  \<^verbatim>\<open>list.some\<close> throws inside the updater and the tree is unmounted: after the first
  save, and after a second one, no song is stored for the user.
\<close>

theorem inherited_user_name_stores_nothing:
  "currentUser constructorApp = Some ''constructor''
   \<and> songsByUser constructorApp ''constructor'' = None
   \<and> songsByUser (handleSaveMix exampleFit exampleInit exampleMix constructorApp) ''constructor''
       = None
   \<and> crashed (handleSaveMix exampleFit exampleInit exampleMix constructorApp)
   \<and> songsByUser (handleSaveMix exampleFit exampleInit exampleMix
        (handleSaveMix exampleFit exampleInit exampleMix constructorApp)) ''constructor'' = None"
proof -
  let ?a1 = "handleSaveMix exampleFit exampleInit exampleMix constructorApp"
  have u: "currentUser constructorApp = Some ''constructor''"
    by (simp add: currentUser_def constructorApp_def alexApp_def)
  have e: "songsByUser constructorApp = Map.empty"
    by (simp add: constructorApp_def alexApp_def)
  have o: "songsOf Map.empty ''constructor'' = None"
    by (simp add: songsOf_def objectPrototypeKeys_def)
  have s1: "songsByUser ?a1 = Map.empty"
    by (simp add: songs_handleSaveMix [OF u] e o)
  have c1: "crashed ?a1"
    by (simp add: crashed_handleSaveMix [OF u] e o)
  have u1: "currentUser ?a1 = Some ''constructor''"
    by (simp add: currentUser_handleSaveMix u)
  have s2: "songsByUser (handleSaveMix exampleFit exampleInit exampleMix ?a1) = Map.empty"
    by (simp add: songs_handleSaveMix [OF u1] s1 o)
  from u e s1 c1 s2 show ?thesis by simp
qed




lemma train_initialized:
  assumes "isInitialized m" and "model m = Some ws" and "fit ws [x] [normalizeGains g] 5 1 = Some ws'"
  shows "train fit init x g (m, store) =
           ((m\<lparr>model := Some ws'\<rparr>, store(storageKey (userId m) \<mapsto> ws')), Inr ())"
  using assms by (simp add: train_def initialize_def saveWeights_def)

text \<open>
  Claim C6, as amended. On every save for which a user is selected, a model is held and
  the mix carries features and gains, \<^verbatim>\<open>train\<close> is called with the features and the gains
  before the duplicate check: afterwards the model and the stored weights are those
  \<^verbatim>\<open>train\<close> gives, whether or not the save is then rejected; a save rejected as a
  duplicate leaves the song lists unchanged.
\<close>

theorem handleSaveMix_trains_before_duplicate_check:
  assumes "currentUser a = Some u" and "userModelRef a = Some m"
    and "song.features mix = Some f" and "song.gains mix = Some g"
  shows "userModelRef (handleSaveMix fit init mix a) =
           Some (fst (fst (train fit init f g (m, modelStorage a))))
       \<and> modelStorage (handleSaveMix fit init mix a) =
           snd (fst (train fit init f g (m, modelStorage a)))
       \<and> ((\<exists>list. songsOf (songsByUser a) u = Some list
                   \<and> list_ex (\<lambda>s. title s = title mix \<and> details s = details mix) list)
            \<longrightarrow> songsByUser (handleSaveMix fit init mix a) = songsByUser a)"
  using model_handleSaveMix [OF assms] songs_handleSaveMix [OF assms(1)] by auto

lemma shift_neq:
  assumes "ws \<noteq> []" and "hd ws \<noteq> []"
  shows "shiftBias ws \<noteq> ws"
proof
  assume eq: "shiftBias ws = ws"
  from assms obtain w b l ls where ws: "ws = ((w, b) # l) # ls"
    by (cases ws; cases "hd ws") auto
  with eq show False by (simp add: shiftBias_def)
qed

lemma shiftBias_nonempty:
  assumes "ws \<noteq> []" and "hd ws \<noteq> []"
  shows "shiftBias ws \<noteq> []" and "hd (shiftBias ws) \<noteq> []"
  using assms by (simp_all add: shiftBias_def hd_map)

lemma createModel_nonempty: "createModel init \<noteq> []" "hd (createModel init) \<noteq> []"
  by (simp_all add: createModel_def denseLayer_def)

lemma songsOf_Alex: "songsOf Map.empty ''Alex'' = Some []"
  by (simp add: songsOf_def objectPrototypeKeys_def)

lemma savedOnce_facts:
  "currentUser savedOnce = Some ''Alex''"
  "songsByUser savedOnce = [''Alex'' \<mapsto> [exampleMix]]"
  "userModelRef savedOnce =
     Some (alexModel\<lparr>model := Some (shiftBias (createModel exampleInit))\<rparr>)"
proof -
  have u: "currentUser alexApp = Some ''Alex''"
    by (simp add: currentUser_def alexApp_def)
  show "currentUser savedOnce = Some ''Alex''"
    by (simp add: savedOnce_def currentUser_handleSaveMix u)
  have "songsByUser alexApp = Map.empty" by (simp add: alexApp_def)
  then show "songsByUser savedOnce = [''Alex'' \<mapsto> [exampleMix]]"
    by (simp add: savedOnce_def songs_handleSaveMix [OF u] songsOf_Alex)
  have t: "train exampleFit exampleInit (replicate 23 (Num 0)) exampleGains (alexModel, modelStorage alexApp) =
      ((alexModel\<lparr>model := Some (shiftBias (createModel exampleInit))\<rparr>,
        (modelStorage alexApp)(storageKey (userId alexModel) \<mapsto>
           shiftBias (createModel exampleInit))), Inr ())"
    by (rule train_initialized) (simp_all add: alexModel_def exampleFit_def)
  have "userModelRef savedOnce =
      Some (fst (fst (train exampleFit exampleInit (replicate 23 (Num 0)) exampleGains (alexModel, modelStorage alexApp))))"
    unfolding savedOnce_def
    by (rule model_handleSaveMix(1) [OF u]) (simp_all add: alexApp_def exampleMix_def)
  then show "userModelRef savedOnce =
     Some (alexModel\<lparr>model := Some (shiftBias (createModel exampleInit))\<rparr>)"
    by (simp add: t)
qed

text \<open>
  Claim C6 as stated fails: Alex saves the same mix twice. The second save is rejected
  as a duplicate and the song lists stay as they were, but \<^verbatim>\<open>train\<close> has run again and
  the parameters of the model have changed.
\<close>

theorem duplicate_save_retrains_model:
  "songsOf (songsByUser savedOnce) ''Alex'' = Some [exampleMix]
   \<and> list_ex (\<lambda>s. title s = title exampleMix \<and> details s = details exampleMix) [exampleMix]
   \<and> songsByUser (handleSaveMix exampleFit exampleInit exampleMix savedOnce) = songsByUser savedOnce
   \<and> userModelRef (handleSaveMix exampleFit exampleInit exampleMix savedOnce) \<noteq> userModelRef savedOnce"
proof -
  let ?ws1 = "shiftBias (createModel exampleInit)"
  let ?m1 = "alexModel\<lparr>model := Some ?ws1\<rparr>"
  have o: "songsOf (songsByUser savedOnce) ''Alex'' = Some [exampleMix]"
    by (simp add: savedOnce_facts songsOf_def)
  have d: "list_ex (\<lambda>s. title s = title exampleMix \<and> details s = details exampleMix) [exampleMix]"
    by simp
  have s: "songsByUser (handleSaveMix exampleFit exampleInit exampleMix savedOnce) = songsByUser savedOnce"
    by (simp add: songs_handleSaveMix [OF savedOnce_facts(1)] o)
  have t: "train exampleFit exampleInit (replicate 23 (Num 0)) exampleGains (?m1, modelStorage savedOnce) =
      ((?m1\<lparr>model := Some (shiftBias ?ws1)\<rparr>,
        (modelStorage savedOnce)(storageKey (userId ?m1) \<mapsto> shiftBias ?ws1)), Inr ())"
    by (rule train_initialized) (simp_all add: alexModel_def exampleFit_def)
  have "userModelRef (handleSaveMix exampleFit exampleInit exampleMix savedOnce) =
      Some (fst (fst (train exampleFit exampleInit (replicate 23 (Num 0)) exampleGains (?m1, modelStorage savedOnce))))"
    by (rule model_handleSaveMix(1) [OF savedOnce_facts(1) savedOnce_facts(3)])
       (simp_all add: exampleMix_def)
  then have m: "userModelRef (handleSaveMix exampleFit exampleInit exampleMix savedOnce) =
      Some (?m1\<lparr>model := Some (shiftBias ?ws1)\<rparr>)"
    by (simp add: t)
  have ne: "shiftBias ?ws1 \<noteq> ?ws1"
    by (rule shift_neq) (rule shiftBias_nonempty [OF createModel_nonempty])+
  have "userModelRef (handleSaveMix exampleFit exampleInit exampleMix savedOnce) \<noteq> userModelRef savedOnce"
  proof
    assume "userModelRef (handleSaveMix exampleFit exampleInit exampleMix savedOnce) = userModelRef savedOnce"
    then have "model (?m1\<lparr>model := Some (shiftBias ?ws1)\<rparr>) = model ?m1"
      by (simp only: m savedOnce_facts(3) option.inject)
    with ne show False by simp
  qed
  with o d s show ?thesis by blast
qed

theorem handleSaveMix_trains_before_duplicate_check_witness:
  "currentUser savedOnce = Some ''Alex''
   \<and> userModelRef (handleSaveMix exampleFit exampleInit exampleMix savedOnce) =
       Some (fst (fst (train exampleFit exampleInit (replicate 23 (Num 0)) exampleGains
          (alexModel\<lparr>model := Some (shiftBias (createModel exampleInit))\<rparr>,
           modelStorage savedOnce))))
   \<and> songsByUser (handleSaveMix exampleFit exampleInit exampleMix savedOnce) = songsByUser savedOnce"
proof -
  have f: "song.features exampleMix = Some (replicate 23 (Num 0))" "song.gains exampleMix = Some exampleGains"
    by (simp_all add: exampleMix_def)
  have d: "\<exists>list. songsOf (songsByUser savedOnce) ''Alex'' = Some list
      \<and> list_ex (\<lambda>s. title s = title exampleMix \<and> details s = details exampleMix) list"
    by (simp add: savedOnce_facts songsOf_def)
  from handleSaveMix_trains_before_duplicate_check
    [OF savedOnce_facts(1) savedOnce_facts(3) f, of exampleFit exampleInit] d savedOnce_facts(1)
  show ?thesis by blast
qed

section \<open>Properties of the debounced live update\<close>

lemma handleChange_arms:
  assumes "playing st" "\<not> mixer.paused st" "audioRef st \<noteq> None"
    and "\<forall>t \<in> set (timeouts st). updateTimeoutRef st = Some (fst t)"
  shows "armed (handleChange key val st)"
    and "mixRequests (handleChange key val st) = mixRequests st"
proof -
  have f: "filter (\<lambda>t. fst t \<noteq> i) (timeouts st) = []" if "updateTimeoutRef st = Some i" for i
    using assms(4) that by (auto simp: filter_empty_conv)
  have e: "timeouts st = []" if "updateTimeoutRef st = None"
    using assms(4) that by (cases "timeouts st") auto
  show "armed (handleChange key val st)"
    using assms(1-3) f e
    by (cases "updateTimeoutRef st")
       (auto simp: armed_def handleChange_def Let_def clearTimeout_def)
  show "mixRequests (handleChange key val st) = mixRequests st"
    using assms(1-3)
    by (cases "updateTimeoutRef st")
       (auto simp: handleChange_def Let_def clearTimeout_def)
qed

lemma elapse_quiet:
  assumes "armed st" and "d < 200"
  shows "elapse d st = st\<lparr>clock := clock st + d\<rparr>"
  using assms by (auto simp: armed_def elapse_def Let_def)

lemma elapse_fires:
  assumes "armed st" and "200 \<le> d"
  shows "mixRequests (elapse d st) = mixRequests st @ [mixer.gains st]"
  using assms
  by (auto simp: armed_def elapse_def Let_def updatePlayingAudio_request_def)

lemma armed_step:
  assumes "armed st" and "gap < 200"
  shows "armed (handleChange key val (elapse gap st))"
    and "mixRequests (handleChange key val (elapse gap st)) = mixRequests st"
proof -
  let ?s = "st\<lparr>clock := clock st + gap\<rparr>"
  have p: "playing ?s" "\<not> mixer.paused ?s" "audioRef ?s \<noteq> None"
    "\<forall>t \<in> set (timeouts ?s). updateTimeoutRef ?s = Some (fst t)"
    using assms(1) by (auto simp: armed_def)
  show "armed (handleChange key val (elapse gap st))"
    unfolding elapse_quiet [OF assms] by (rule handleChange_arms(1) [OF p])
  show "mixRequests (handleChange key val (elapse gap st)) = mixRequests st"
    unfolding elapse_quiet [OF assms] using handleChange_arms(2) [OF p] by simp
qed

lemma armed_sliderEdits:
  assumes "armed st" and "\<forall>e \<in> set es. fst e < 200"
  shows "armed (sliderEdits es st) \<and> mixRequests (sliderEdits es st) = mixRequests st"
  using assms
proof (induction es arbitrary: st)
  case Nil
  then show ?case by simp
next
  case (Cons e es)
  obtain gap key val where e: "e = (gap, key, val)" by (cases e)
  with Cons.prems have g: "gap < 200" by simp
  from armed_step [OF Cons.prems(1) g, of key val] Cons.IH [of "handleChange key val (elapse gap st)"]
    Cons.prems(2)
  show ?case by (simp add: e)
qed

lemma gains_request: "mixer.gains (fst (updatePlayingAudio_request g s)) = mixer.gains s"
  by (simp add: updatePlayingAudio_request_def split: option.splits)

lemma gains_fold:
  "mixer.gains (foldl (\<lambda>s (i, time, g). fst (updatePlayingAudio_request g s)) s0 xs) = mixer.gains s0"
  by (induction xs arbitrary: s0) (simp_all add: gains_request split: prod.splits)

lemma gains_elapse: "mixer.gains (elapse d st) = mixer.gains st"
  by (simp add: elapse_def Let_def gains_fold)

lemma gains_handleChange:
  "mixer.gains (handleChange key val st) = setGain key (Num (of_int val)) (mixer.gains st)"
  by (simp add: handleChange_def Let_def clearTimeout_def split: option.splits)

text \<open>
  Claim C1. While a mix plays and is not paused, a slider edit followed by any burst of
  further edits, each less than 200 ms after the previous one, sends no render request
  while the burst lasts; afterwards exactly one request is sent, once 200 ms have passed
  since the last edit, and it carries the gains as they are after the last edit. (The
  pending timeouts at the start are those \<^verbatim>\<open>updateTimeoutRef\<close> holds, as the
  component keeps them.)
\<close>

theorem debounced_burst_sends_one_request:
  assumes "playing st" and "\<not> mixer.paused st" and "audioRef st \<noteq> None"
    and "\<forall>t \<in> set (timeouts st). updateTimeoutRef st = Some (fst t)"
    and "\<forall>e \<in> set es. fst e < 200"
  shows "mixRequests (sliderEdits es (handleChange key val st)) = mixRequests st
       \<and> mixRequests (elapse d (sliderEdits es (handleChange key val st))) =
           mixRequests st @
             (if 200 \<le> d then [mixer.gains (sliderEdits es (handleChange key val st))] else [])"
proof -
  let ?s = "sliderEdits es (handleChange key val st)"
  have a: "armed ?s" and r: "mixRequests ?s = mixRequests st"
    using armed_sliderEdits [OF handleChange_arms(1) [OF assms(1-4)] assms(5)]
      handleChange_arms(2) [OF assms(1-4)] by simp_all
  show ?thesis
  proof (cases "200 \<le> d")
    case True
    with elapse_fires [OF a] r show ?thesis by simp
  next
    case False
    then have "d < 200" by simp
    with elapse_quiet [OF a] r False show ?thesis by simp
  qed
qed

theorem debounced_burst_sends_one_request_witness:
  "mixRequests (sliderEdits exampleBurst (handleChange Vocals 1 playingMixer)) = []
   \<and> mixRequests (elapse 199 (sliderEdits exampleBurst (handleChange Vocals 1 playingMixer))) = []
   \<and> mixRequests (elapse 200 (sliderEdits exampleBurst (handleChange Vocals 1 playingMixer))) =
       [\<lparr> vocals = Num 6, drums = Num (- 2), bass = Num 0, other = Num 0 \<rparr>]"
proof -
  have p: "playing playingMixer" "\<not> mixer.paused playingMixer" "audioRef playingMixer \<noteq> None"
    "\<forall>t \<in> set (timeouts playingMixer). updateTimeoutRef playingMixer = Some (fst t)"
    by (simp_all add: playingMixer_def idleMixer_def)
  have b: "\<forall>e \<in> set exampleBurst. fst e < 200"
    by (simp add: exampleBurst_def)
  have g: "mixer.gains (sliderEdits exampleBurst (handleChange Vocals 1 playingMixer)) =
      \<lparr> vocals = Num 6, drums = Num (- 2), bass = Num 0, other = Num 0 \<rparr>"
    by (simp add: exampleBurst_def gains_elapse gains_handleChange playingMixer_def idleMixer_def)
  have r: "mixRequests playingMixer = []"
    by (simp add: playingMixer_def idleMixer_def)
  from debounced_burst_sends_one_request [OF p b, of Vocals 1 199]
    debounced_burst_sends_one_request [OF p b, of Vocals 1 200]
  show ?thesis by (simp add: g r)
qed

section \<open>Properties of the handover\<close>

lemmas mixer_example_defs = playingMixer_def idleMixer_def playingAudio_def newAudioElement_def
  exampleGains_def

lemma lateResponse_eval:
  "lateResponse =
     (playingMixer\<lparr> mixRequests := [exampleGains],
        audios := (\<lambda>a. newAudioElement [])
          (0 := playingAudio\<lparr>audio.currentTime := 12\<rparr>,
           1 := \<lparr> src = ''http://127.0.0.1:8000/output/mix2.wav'', currentTime = 0,
                  duration = Some 180, volume = 0, paused = True, readyState = 4 \<rparr>),
        nextAudio := 2 \<rparr>,
      Some \<lparr> capture.currentTime = 10, wasPlaying = True, oldAudio = 0, oldVolume = 1 \<rparr>)"
  by (auto simp add: lateResponse_def updatePlayingAudio_request_def updatePlayingAudio_response_def
      playback_def advance_def loaded_def updateAudio_def mixer_example_defs Let_def fun_eq_iff)

text \<open>
  Claim C3, as amended. A render request that fails, an error status and a response
  without an audio path are caught and logged, and leave the whole state as it was, the
  playing element included. When \<^verbatim>\<open>play()\<close> on the new element rejects during the
  handover of a playing mix, the failure is logged and no alert is shown, but the
  fallback swaps without crossfade: the old element is paused (its other attributes
  kept), the new element becomes the current one at volume 1, and \<^verbatim>\<open>play()\<close> is
  called on it once more.
\<close>

theorem live_update_failure_handling:
  "(r \<in> {NetworkError, HttpError status, Body None, Body (Some [])}
      \<longrightarrow> updatePlayingAudio_response r st =
            (st\<lparr>console := console st @ [''Error updating audio:'']\<rparr>, None))
   \<and> (\<not> crossfadeStarted h \<and> wasPlaying h \<and> oldAudio h \<noteq> newAudio h
      \<longrightarrow> (case handleCanPlay False fallbackResolves h st of
             (h', st') \<Rightarrow>
               console st' = console st @ [''Error playing updated audio:'']
               \<and> alerts st' = alerts st
               \<and> audios st' (oldAudio h) = (audios st (oldAudio h))\<lparr>audio.paused := True\<rparr>
               \<and> audioRef st' = Some (newAudio h)
               \<and> volume (audios st' (newAudio h)) = 1
               \<and> audio.paused (audios st' (newAudio h)) =
                   (if fallbackResolves then False else audio.paused (audios st (newAudio h)))))"
  by (auto simp add: updatePlayingAudio_response_def handleCanPlay_def Let_def updateAudio_def
      pause_def play_def)

theorem live_update_failure_handling_witness:
  "updatePlayingAudio_response (HttpError 500) (fst lateResponse) =
     ((fst lateResponse)\<lparr>console := console (fst lateResponse) @ [''Error updating audio:'']\<rparr>, None)
   \<and> \<not> audio.paused (audios (fst lateResponse) 0)
   \<and> (case handleCanPlay False False
            (beginHandover \<lparr> capture.currentTime = 10, wasPlaying = True, oldAudio = 0, oldVolume = 1 \<rparr> 1)
            (fst lateResponse) of
        (h', st') \<Rightarrow>
          console st' = console (fst lateResponse) @ [''Error playing updated audio:'']
          \<and> audio.paused (audios st' 0) \<and> audioRef st' = Some 1
          \<and> volume (audios st' 1) = 1)"
proof -
  let ?h = "beginHandover \<lparr> capture.currentTime = 10, wasPlaying = True, oldAudio = 0, oldVolume = 1 \<rparr> 1"
  have h: "\<not> crossfadeStarted ?h \<and> wasPlaying ?h \<and> oldAudio ?h \<noteq> newAudio ?h"
    "oldAudio ?h = 0" "newAudio ?h = 1"
    by (simp_all add: beginHandover_def)
  have p: "\<not> audio.paused (audios (fst lateResponse) 0)"
    by (simp add: lateResponse_eval playingAudio_def)
  from live_update_failure_handling
    [where r = "HttpError 500" and status = 500 and st = "fst lateResponse" and h = ?h
       and fallbackResolves = False] h p
  show ?thesis by (auto split: prod.splits)
qed

text \<open>
  Claim C3 as stated fails: when both calls of \<^verbatim>\<open>play()\<close> on the new element reject,
  the element that was playing before the update is paused and is no longer the current
  one, and nothing plays.
\<close>

theorem failed_play_pauses_previous_stream:
  "map_option (\<lambda>(h, st). (audio.paused (audios st 0), audio.paused (audios st 1), audioRef st))
     (lateHandover False False) = Some (True, True, Some 1)
   \<and> \<not> audio.paused (audios (fst lateResponse) 0) \<and> audioRef (fst lateResponse) = Some 0"
  by (simp add: lateHandover_def lateResponse_eval handleCanPlay_def beginHandover_def
      updateAudio_def play_def pause_def Let_def mixer_example_defs)

text \<open>
  The crossfade of \<^verbatim>\<open>handleCanPlay\<close>: the new element starts at the saved position
  capped by its duration; after \<open>k\<close> of the 30 ticks the new volume is \<open>k / 30\<close> and
  the old one \<open>1 - k / 30\<close>; the last tick pauses the old element and makes the new one
  the current element at volume 1.
\<close>

lemma fadeTick_ramp:
  assumes "fadeInterval h" and "oldAudio h \<noteq> newAudio h"
    and "\<not> audio.paused (audios st (oldAudio h))" and "Suc (step h) < steps"
  shows "fadeTick h st =
           (h\<lparr>step := Suc (step h)\<rparr>,
            updateAudio (oldAudio h) (\<lambda>x. x\<lparr>volume := 1 - real (Suc (step h)) / 30\<rparr>)
              (updateAudio (newAudio h) (\<lambda>x. x\<lparr>volume := real (Suc (step h)) / 30\<rparr>) st))"
proof -
  from assms(4) have k: "real (Suc (step h)) / 30 \<le> 1" by (simp add: steps_def)
  then have a: "min (real (Suc (step h)) * volumeStep) 1 = real (Suc (step h)) / 30"
    and b: "max (1 - real (Suc (step h)) * volumeStep) 0 = 1 - real (Suc (step h)) / 30"
    by (simp_all add: volumeStep_def steps_def)
  from assms show ?thesis
    unfolding fadeTick_def Let_def a b
    by (simp add: updateAudio_def del: of_nat_Suc)
qed

lemma fadeTick_last:
  assumes "fadeInterval h" and "oldAudio h \<noteq> newAudio h"
    and "\<not> audio.paused (audios st (oldAudio h))" and "Suc (step h) = steps"
  shows "case fadeTick h st of
           (h', st') \<Rightarrow>
             \<not> fadeInterval h' \<and> audioRef st' = Some (newAudio h)
             \<and> volume (audios st' (newAudio h)) = 1
             \<and> audio.paused (audios st' (oldAudio h))
             \<and> volume (audios st' (oldAudio h)) = oldVolume h
             \<and> audio.paused (audios st' (newAudio h)) = audio.paused (audios st (newAudio h))
             \<and> audio.currentTime (audios st' (newAudio h)) = audio.currentTime (audios st (newAudio h))"
  using assms
  by (simp add: fadeTick_def Let_def updateAudio_def pause_def del: of_nat_Suc)

lemma fadeTicks_fading:
  assumes "fadeInterval h0" and "step h0 = 0" and "oldAudio h0 \<noteq> newAudio h0"
    and "\<not> audio.paused (audios s0 (oldAudio h0))" and "k < steps"
  shows "fading h0 s0 k (fadeTicks k (h0, s0))"
  using assms(5)
proof (induction k)
  case 0
  then show ?case using assms(1-4) by (simp add: fading_def)
next
  case (Suc k)
  then have IH: "fading h0 s0 k (fadeTicks k (h0, s0))" by simp
  obtain h st where hs: "fadeTicks k (h0, s0) = (h, st)" by (cases "fadeTicks k (h0, s0)")
  from IH have h: "h = h0\<lparr>step := k\<rparr>" and st: "audioRef st = audioRef s0"
    "\<not> audio.paused (audios st (oldAudio h0))"
    "audio.paused (audios st (newAudio h0)) = audio.paused (audios s0 (newAudio h0))"
    "audio.currentTime (audios st (newAudio h0)) = audio.currentTime (audios s0 (newAudio h0))"
    "audio.currentTime (audios st (oldAudio h0)) = audio.currentTime (audios s0 (oldAudio h0))"
    by (simp_all add: fading_def hs)
  have t: "fadeTick (h0\<lparr>step := k\<rparr>) st =
           (h0\<lparr>step := Suc k\<rparr>,
            updateAudio (oldAudio h0) (\<lambda>x. x\<lparr>volume := 1 - real (Suc k) / 30\<rparr>)
              (updateAudio (newAudio h0) (\<lambda>x. x\<lparr>volume := real (Suc k) / 30\<rparr>) st))"
    using fadeTick_ramp [of "h0\<lparr>step := k\<rparr>" st] assms(1,3) st Suc.prems by simp
  show ?case
    using st assms(3) by (simp add: hs h t fading_def updateAudio_def del: of_nat_Suc)
qed

lemma handleCanPlay_starts_fade:
  assumes "\<not> crossfadeStarted h" and "wasPlaying h"
  shows "handleCanPlay True fb h st =
           (h\<lparr>crossfadeStarted := True, step := 0, fadeInterval := True\<rparr>,
            updateAudio (newAudio h) (\<lambda>x. x\<lparr>audio.paused := False\<rparr>)
              (updateAudio (newAudio h)
                 (\<lambda>x. x\<lparr>audio.currentTime :=
                    min (capture.currentTime h)
                      (case audio.duration (audios st (newAudio h)) of
                         None \<Rightarrow> capture.currentTime h
                       | Some d \<Rightarrow> if d = 0 then capture.currentTime h else d)\<rparr>) st))"
  using assms by (simp add: handleCanPlay_def Let_def play_def)

lemma crossfade_handover:
  assumes "\<not> crossfadeStarted h" and "wasPlaying h" and "oldAudio h \<noteq> newAudio h"
    and "\<not> audio.paused (audios st (oldAudio h))"
  shows "audio.currentTime (audios (snd (handleCanPlay True fb h st)) (newAudio h)) =
           min (capture.currentTime h)
             (case audio.duration (audios st (newAudio h)) of
                None \<Rightarrow> capture.currentTime h
              | Some d \<Rightarrow> if d = 0 then capture.currentTime h else d)"
    and "0 < k \<Longrightarrow> k < steps \<Longrightarrow>
           (case fadeTicks k (handleCanPlay True fb h st) of
              (h', st') \<Rightarrow>
                volume (audios st' (newAudio h)) = real k / 30
                \<and> volume (audios st' (oldAudio h)) = 1 - real k / 30
                \<and> volume (audios st' (newAudio h)) + volume (audios st' (oldAudio h)) = 1
                \<and> audioRef st' = audioRef st)"
    and "(case fadeTicks steps (handleCanPlay True fb h st) of
              (h', st') \<Rightarrow>
                audio.paused (audios st' (oldAudio h)) \<and> audioRef st' = Some (newAudio h)
                \<and> volume (audios st' (newAudio h)) = 1
                \<and> \<not> audio.paused (audios st' (newAudio h)) \<and> \<not> fadeInterval h')"
proof -
  let ?h0 = "h\<lparr>crossfadeStarted := True, step := 0, fadeInterval := True\<rparr>"
  let ?t = "min (capture.currentTime h)
             (case audio.duration (audios st (newAudio h)) of
                None \<Rightarrow> capture.currentTime h
              | Some d \<Rightarrow> if d = 0 then capture.currentTime h else d)"
  let ?s0 = "updateAudio (newAudio h) (\<lambda>x. x\<lparr>audio.paused := False\<rparr>)
              (updateAudio (newAudio h) (\<lambda>x. x\<lparr>audio.currentTime := ?t\<rparr>) st)"
  have start: "handleCanPlay True fb h st = (?h0, ?s0)"
    by (rule handleCanPlay_starts_fade [OF assms(1,2)])
  have h0: "fadeInterval ?h0" "step ?h0 = 0" "oldAudio ?h0 \<noteq> newAudio ?h0"
    "\<not> audio.paused (audios ?s0 (oldAudio ?h0))"
    using assms(3,4) by (simp_all add: updateAudio_def)
  have s0: "audioRef ?s0 = audioRef st" "\<not> audio.paused (audios ?s0 (newAudio h))"
    by (simp_all add: updateAudio_def)
  show "audio.currentTime (audios (snd (handleCanPlay True fb h st)) (newAudio h)) = ?t"
    by (simp add: start updateAudio_def)
  have f: "fading ?h0 ?s0 k (fadeTicks k (?h0, ?s0))" if "k < steps" for k
    by (rule fadeTicks_fading [OF h0 that])
  show "(case fadeTicks k (handleCanPlay True fb h st) of
              (h', st') \<Rightarrow>
                volume (audios st' (newAudio h)) = real k / 30
                \<and> volume (audios st' (oldAudio h)) = 1 - real k / 30
                \<and> volume (audios st' (newAudio h)) + volume (audios st' (oldAudio h)) = 1
                \<and> audioRef st' = audioRef st)" if "0 < k" "k < steps"
    using f [OF that(2)] that(1) s0(1) unfolding start
    by (cases "fadeTicks k (?h0, ?s0)") (simp add: fading_def)
  have "29 < steps" by (simp add: steps_def)
  from f [OF this] obtain st29 where
    t29: "fadeTicks 29 (?h0, ?s0) = (?h0\<lparr>step := 29\<rparr>, st29)"
    and np: "\<not> audio.paused (audios st29 (oldAudio h))"
    and pn: "audio.paused (audios st29 (newAudio h)) = audio.paused (audios ?s0 (newAudio h))"
    by (cases "fadeTicks 29 (?h0, ?s0)") (simp add: fading_def)
  have last: "case fadeTick (?h0\<lparr>step := 29\<rparr>) st29 of
           (h', st') \<Rightarrow>
             \<not> fadeInterval h' \<and> audioRef st' = Some (newAudio (?h0\<lparr>step := 29\<rparr>))
             \<and> volume (audios st' (newAudio (?h0\<lparr>step := 29\<rparr>))) = 1
             \<and> audio.paused (audios st' (oldAudio (?h0\<lparr>step := 29\<rparr>)))
             \<and> volume (audios st' (oldAudio (?h0\<lparr>step := 29\<rparr>))) = oldVolume (?h0\<lparr>step := 29\<rparr>)
             \<and> audio.paused (audios st' (newAudio (?h0\<lparr>step := 29\<rparr>))) =
                 audio.paused (audios st29 (newAudio (?h0\<lparr>step := 29\<rparr>)))
             \<and> audio.currentTime (audios st' (newAudio (?h0\<lparr>step := 29\<rparr>))) =
                 audio.currentTime (audios st29 (newAudio (?h0\<lparr>step := 29\<rparr>)))"
    by (rule fadeTick_last) (use assms(3) np in \<open>simp_all add: steps_def\<close>)
  have "fadeTicks steps (?h0, ?s0) = fadeTick (?h0\<lparr>step := 29\<rparr>) st29"
  proof -
    have "fadeTicks steps (?h0, ?s0) = fadeTicks (Suc 29) (?h0, ?s0)"
      by (simp add: steps_def)
    also have "\<dots> = (case fadeTicks 29 (?h0, ?s0) of (h, st) \<Rightarrow> fadeTick h st)"
      by (rule fadeTicks.simps(2))
    finally show ?thesis by (simp only: t29 prod.case)
  qed
  with last pn s0(2) show "(case fadeTicks steps (handleCanPlay True fb h st) of
              (h', st') \<Rightarrow>
                audio.paused (audios st' (oldAudio h)) \<and> audioRef st' = Some (newAudio h)
                \<and> volume (audios st' (newAudio h)) = 1
                \<and> \<not> audio.paused (audios st' (newAudio h)) \<and> \<not> fadeInterval h')"
    unfolding start by (auto split: prod.splits)
qed

lemma fade_lasts_150ms: "real steps * stepTime = 150"
  by (simp add: stepTime_def fadeDuration_def steps_def)

text \<open>
  Claim C4 fails on the position. The position given to the new element is the one
  saved when \<^verbatim>\<open>updatePlayingAudio\<close> began, before the render was awaited: with a render
  that takes two seconds the handover starts the new element at 10 s while the old one,
  still the current element, has reached 12 s.
\<close>

theorem handover_uses_saved_position:
  "map_option (\<lambda>(h, st). (audio.currentTime (audios st 1), audio.currentTime (audios st 0),
        audioRef st, fadeInterval h))
     (lateHandover True True) = Some (10, 12, Some 0, True)"
  by (simp add: lateHandover_def lateResponse_eval handleCanPlay_def beginHandover_def
      updateAudio_def play_def Let_def mixer_example_defs)

section \<open>Properties of polling\<close>

lemma js_round_100: "100 \<le> x \<Longrightarrow> 100 \<le> js_round x"
  by (simp add: js_round_def)

lemma jle_Num: "jle (Num a) (Num b) = (a \<le> b)"
  by (auto simp: jle_def)

lemma stopPolling_fields:
  "progressIntervalRef (stopPolling st) = None"
  "separating (stopPolling st) = separating st"
  "alerts (stopPolling st) = alerts st"
  "console (stopPolling st) = console st"
  "pollsInFlight (stopPolling st) = pollsInFlight st"
  "progress (stopPolling st) = progress st"
  by (simp_all add: stopPolling_def clearInterval_def split: option.splits)

lemma stopPolling_intervals:
  assumes "\<forall>i \<in> set (intervals st). progressIntervalRef st = Some i"
  shows "intervals (stopPolling st) = []"
proof (cases "progressIntervalRef st")
  case None
  with assms have "intervals st = []" by (cases "intervals st") auto
  with None show ?thesis by (simp add: stopPolling_def)
next
  case (Some i)
  with assms have "\<forall>x \<in> set (intervals st). x = i" by auto
  then have "removeAll i (intervals st) = []"
    by (simp add: removeAll_filter_not_eq filter_empty_conv)
  with Some show ?thesis by (simp add: stopPolling_def clearInterval_def)
qed

lemma stopPolling_idle:
  assumes "progressIntervalRef st = None"
  shows "stopPolling st = st"
  using assms by (simp add: stopPolling_def)

lemma pollProgress_terminal:
  assumes "\<forall>i \<in> set (intervals st). progressIntervalRef st = Some i"
    and "(status = ''completed'' \<and> p = Num r \<and> 1 \<le> r) \<or> status = ''error''"
  shows "snd (pollProgress (PollData status p) st) = False"
    and "intervals (fst (pollProgress (PollData status p) st)) = []"
    and "progressIntervalRef (fst (pollProgress (PollData status p) st)) = None"
    and "\<not> separating (fst (pollProgress (PollData status p) st))"
    and "alerts (fst (pollProgress (PollData status p) st)) =
           alerts st @ [if status = ''completed'' then ''Separation complete.''
                        else ''Separation error occurred.'']"
proof -
  let ?st1 = "st\<lparr>progress := jround (jmul p (Num 100))\<rparr>"
  have i: "intervals (stopPolling ?st1) = []"
    by (rule stopPolling_intervals) (use assms(1) in simp)
  from assms(2) consider (fin) "status = ''completed''" "p = Num r" "1 \<le> r"
    | (err) "status = ''error''"
    by blast
  then have "snd (pollProgress (PollData status p) st) = False
      \<and> intervals (fst (pollProgress (PollData status p) st)) = []
      \<and> progressIntervalRef (fst (pollProgress (PollData status p) st)) = None
      \<and> \<not> separating (fst (pollProgress (PollData status p) st))
      \<and> alerts (fst (pollProgress (PollData status p) st)) =
           alerts st @ [if status = ''completed'' then ''Separation complete.''
                        else ''Separation error occurred.'']"
  proof cases
    case fin
    then have "100 \<le> js_round (r * 100)" by (intro js_round_100) simp
    with fin i show ?thesis
      by (simp add: pollProgress_def Let_def stopPolling_fields jle_Num)
  next
    case err
    with i show ?thesis
      by (simp add: pollProgress_def Let_def stopPolling_fields)
  qed
  then show "snd (pollProgress (PollData status p) st) = False"
    and "intervals (fst (pollProgress (PollData status p) st)) = []"
    and "progressIntervalRef (fst (pollProgress (PollData status p) st)) = None"
    and "\<not> separating (fst (pollProgress (PollData status p) st))"
    and "alerts (fst (pollProgress (PollData status p) st)) =
           alerts st @ [if status = ''completed'' then ''Separation complete.''
                        else ''Separation error occurred.'']"
    by simp_all
qed

lemma pollResponse_terminal:
  assumes "0 < pollsInFlight st"
    and "\<forall>i \<in> set (intervals st). progressIntervalRef st = Some i"
    and "(status = ''completed'' \<and> p = Num r \<and> 1 \<le> r) \<or> status = ''error''"
  shows "intervals (pollResponse (PollData status p) st) = []
       \<and> progressIntervalRef (pollResponse (PollData status p) st) = None
       \<and> \<not> separating (pollResponse (PollData status p) st)
       \<and> alerts (pollResponse (PollData status p) st) =
           alerts st @ [if status = ''completed'' then ''Separation complete.''
                        else ''Separation error occurred.'']
       \<and> (\<forall>i. intervalTick i (pollResponse (PollData status p) st) =
                pollResponse (PollData status p) st)"
proof -
  let ?s = "st\<lparr>pollsInFlight := pollsInFlight st - 1\<rparr>"
  let ?q = "pollProgress (PollData status p) ?s"
  have a: "\<forall>i \<in> set (intervals ?s). progressIntervalRef ?s = Some i"
    using assms(2) by simp
  note t = pollProgress_terminal [OF a assms(3)]
  obtain s1 c where q: "?q = (s1, c)" by (cases ?q)
  with t(1,3) have "c = False" "progressIntervalRef s1 = None" by simp_all
  then have r: "pollResponse (PollData status p) st = fst ?q"
    using assms(1) q by (simp add: pollResponse_def stopPolling_idle)
  show ?thesis
    unfolding r using t by (simp add: intervalTick_def)
qed

lemma pollResponse_transient:
  assumes "0 < pollsInFlight st" and "r = PollFailed \<or> r = PollNotOk"
  shows "intervals (pollResponse r st) = intervals st
       \<and> progressIntervalRef (pollResponse r st) = progressIntervalRef st
       \<and> separating (pollResponse r st) = separating st
       \<and> progress (pollResponse r st) = progress st
       \<and> alerts (pollResponse r st) = alerts st
       \<and> pollsInFlight (pollResponse r st) = pollsInFlight st - 1"
  using assms by (auto simp add: pollResponse_def pollProgress_def)

text \<open>
  Claim C8 fails on "exactly once". The interval fires again before the first progress
  request is answered; both requests are then answered with the completed job, and each
  response schedules the alert: the completion is reported twice. The interval is
  cancelled and no request is left.
\<close>

theorem overlapping_polls_alert_twice:
  "alerts overlappingPolls = [''Separation complete.'', ''Separation complete.'']
   \<and> intervals overlappingPolls = [] \<and> pollsInFlight overlappingPolls = 0"
  by (simp add: overlappingPolls_def handleUpload_def intervalTick_def pollResponse_def
      pollProgress_def stopPolling_def clearInterval_def js_round_def jle_Num Let_def
      mixer_example_defs)

end
